theory Spec2Isabelle
  imports Main "HOL-Library.Word" "HOL-Library.Signed_Division"
begin

section \<open>Sandwich-Daemon: the shard state machine, dispatch, chunking and the RPC surface\<close>

text \<open>
  A shallow embedding of the Go package \<open>gateway\<close>: the shard methods (\<open>Connect\<close>,
  \<open>Reconnect\<close>, \<open>Listen\<close>, \<open>OnEvent\<close>, \<open>OnDispatch\<close>, \<open>WriteJSON\<close>, \<open>ChunkGuild\<close>,
  ...) and the RPC handler \<open>RPCManagerShardGroupCreate\<close>.

  The Go code mutates the shard, its shard group and its manager through pointers and
  talks to the outside (socket, token buckets, message bus, timers).  The model passes
  one \<open>world\<close> record through every method.  The record holds the fields of the one
  shard under study and the fields of its group and manager that the shard touches, a
  chronological \<open>log\<close> of the calls that leave the process, and a \<open>clock\<close> that counts
  the questions asked to the environment.  What the outside answers (does a write fail,
  which frame arrives next, ...) is the record \<open>env\<close> of oracles.
\<close>

subsection \<open>Durations and numbers\<close>

text \<open>\<open>time.Duration\<close> is an \<open>int64\<close> count of nanoseconds.\<close>

type_synonym Duration = int

definition Nanosecond :: Duration where "Nanosecond = 1"
definition Millisecond :: Duration where "Millisecond = 1000000"
definition Second :: Duration where "Second = 1000000000"
definition Minute :: Duration where "Minute = 60 * Second"

definition wrap64 :: "int \<Rightarrow> int" where
  "wrap64 x = (x + 2 ^ 63) mod 2 ^ 64 - 2 ^ 63"

text \<open>\<open>fmt.Sprintf("%d", n)\<close>: the decimal digits, with a minus sign for a negative number.\<close>

definition digit :: "nat \<Rightarrow> char" where
  "digit n = ''0123456789'' ! (n mod 10)"

fun digits :: "nat \<Rightarrow> string" where
  "digits n = (if n < 10 then [digit n] else digits (n div 10) @ [digit n])"

declare digits.simps [simp del]

definition show_int :: "int \<Rightarrow> string" where
  "show_int i = (if i < 0 then CHR ''-'' # digits (nat (- i)) else digits (nat i))"

text \<open>
  Go's \<open>a % b\<close> truncates towards zero (the sign follows the dividend) and panics when
  \<open>b = 0\<close>; \<open>go_rem\<close> is \<open>None\<close> for the panic.
\<close>

definition go_rem :: "int \<Rightarrow> int \<Rightarrow> int option" where
  "go_rem a b = (if b = 0 then None else Some (a smod b))"

subsection \<open>Errors\<close>

text \<open>
  A Go error is a chain: a leaf (\<open>context.Canceled\<close>, \<open>context.DeadlineExceeded\<close>, a
  \<open>websocket.CloseError\<close> with its status code and the text its \<open>Error\<close> method renders,
  or an \<open>errors.New\<close> value) under any number of \<open>xerrors.Errorf("...: %w", err)\<close>
  wrappers, each of which puts its prefix in front of the message.
\<close>

datatype error =
    ContextCanceled
  | ContextDeadlineExceeded
  | CloseError int string
  | ErrorNew string
  | Errorf string error

fun Error :: "error \<Rightarrow> string" where
  "Error ContextCanceled = ''context canceled''"
| "Error ContextDeadlineExceeded = ''context deadline exceeded''"
| "Error (CloseError c s) = s"
| "Error (ErrorNew s) = s"
| "Error (Errorf p e) = p @ Error e"



definition ErrSessionLimitExhausted :: error where
  "ErrSessionLimitExhausted = ErrorNew ''the session limit has been reached''"

definition ErrChunkTimeout :: error where
  "ErrChunkTimeout = ErrorNew ''timed out on initial member chunks''"

text \<open>
  What a call hands back to its caller: \<open>Ok\<close> is a \<open>nil\<close> error (or the plain return of a
  method without a result), \<open>Failed e\<close> a non-nil error, \<open>Panicked\<close> a run-time panic that
  unwinds the goroutine.
\<close>

datatype outcome = Ok | Failed error | Panicked string

subsection \<open>The RPC handler that creates a shard group\<close>

record SessionStartLimit =
  Remaining :: int
  MaxConcurrency :: int

record GatewayBot =
  URL :: string
  Shards :: int
  SessionStartLimit :: SessionStartLimit

record RPCManagerShardGroupCreateEvent =
  Manager :: string
  AutoShard :: bool
  ShardCount :: int
  AutoIDs :: bool
  RawShardIDs :: string
  ShardIDs :: "int list"

text \<open>\<open>passResponse(rw, data, success, status)\<close>: the data is a string or a boolean.\<close>

datatype response_data = DataString string | DataBool bool

record rpc_response =
  data :: response_data
  success :: bool
  status :: int

definition StatusOK :: int where "StatusOK = 200"
definition StatusBadRequest :: int where "StatusBadRequest = 400"

text \<open>
  What the handler did: its boolean result, the response it passed, the arguments of
  \<open>manager.Scale\<close> when it called it, and the manager's gateway descriptor afterwards.
\<close>

record rpc_result =
  returned :: bool
  response :: rpc_response
  scale_call :: "(int list \<times> int \<times> bool) option"
  gateway_after :: "GatewayBot option"

text \<open>\<open>Manager.GenerateShardIDs\<close>: the ids \<open>0 .. shardCount - 1\<close>.\<close>

definition GenerateShardIDs :: "int \<Rightarrow> int list" where
  "GenerateShardIDs shardCount = map int [0 ..< nat shardCount]"

text \<open>
  \<open>RPCManagerShardGroupCreate\<close>.  The request body arrives decoded (\<open>json.Unmarshal\<close>
  answered with an error or the event), \<open>Managers\<close> maps a name to the manager's gateway
  descriptor, \<open>GetGateway\<close> is the answer of the REST call and \<open>ReturnRange\<close> is the
  helper that parses the raw id ranges; both are declared outside the files at hand and
  are taken as parameters.
\<close>

definition RPCManagerShardGroupCreate ::
  "(string \<rightharpoonup> GatewayBot) \<Rightarrow> (error + GatewayBot) \<Rightarrow> (string \<Rightarrow> int \<Rightarrow> int list) \<Rightarrow>
   (error + RPCManagerShardGroupCreateEvent) \<Rightarrow> rpc_result" where
  "RPCManagerShardGroupCreate Managers GetGateway ReturnRange req =
    (case req of
       Inl err \<Rightarrow>
         \<lparr>returned = False,
          response = \<lparr>data = DataString (Error err), success = False, status = StatusBadRequest\<rparr>,
          scale_call = None, gateway_after = None\<rparr>
     | Inr event \<Rightarrow>
       (case Managers (Manager event) of
          None \<Rightarrow>
            \<lparr>returned = False,
             response = \<lparr>data = DataString ''Invalid manager provided'', success = False,
                         status = StatusBadRequest\<rparr>,
             scale_call = None, gateway_after = None\<rparr>
        | Some gateway0 \<Rightarrow>
            let gateway = (if AutoShard event
                           then (case GetGateway of Inl err \<Rightarrow> gateway0 | Inr gw \<Rightarrow> gw)
                           else gateway0);
                count0 = (if AutoShard event then Shards gateway else ShardCount event);
                count = (if count0 < 1 then 1 else count0);
                ids0 = (if AutoIDs event then GenerateShardIDs count
                        else ReturnRange (RawShardIDs event) count);
                ids = (if length ids0 = 0 then [0] else ids0);
                remaining = Remaining (SessionStartLimit gateway)
            in if int (length ids) < remaining
               then \<lparr>returned = True,
                     response = \<lparr>data = DataBool True, success = True, status = StatusOK\<rparr>,
                     scale_call = Some (ids, count, True), gateway_after = Some gateway\<rparr>
               else \<lparr>returned = True,
                     response = \<lparr>data = DataString (''Not enough sessions to start '' @
                                   show_int (int (length ids)) @ '' shard(s). '' @
                                   show_int remaining @ '' remain''),
                                 success = False, status = StatusBadRequest\<rparr>,
                     scale_call = None, gateway_after = Some gateway\<rparr>))"

subsection \<open>Gateway opcodes, close codes and payloads\<close>

text \<open>
  Modelled from the spec: the opcode numbers of package \<open>discord\<close>, which is not among
  the files (Dispatch 0, Heartbeat 1, Identify 2, StatusUpdate 3, VoiceStateUpdate 4,
  Resume 6, Reconnect 7, RequestGuildMembers 8, InvalidSession 9, Hello 10,
  HeartbeatAck 11).  A received frame may carry any other number.
\<close>

type_synonym GatewayOp = int

definition GatewayOpDispatch :: GatewayOp where "GatewayOpDispatch = 0"
definition GatewayOpHeartbeat :: GatewayOp where "GatewayOpHeartbeat = 1"
definition GatewayOpIdentify :: GatewayOp where "GatewayOpIdentify = 2"
definition GatewayOpStatusUpdate :: GatewayOp where "GatewayOpStatusUpdate = 3"
definition GatewayOpVoiceStateUpdate :: GatewayOp where "GatewayOpVoiceStateUpdate = 4"
definition GatewayOpResume :: GatewayOp where "GatewayOpResume = 6"
definition GatewayOpReconnect :: GatewayOp where "GatewayOpReconnect = 7"
definition GatewayOpRequestGuildMembers :: GatewayOp where "GatewayOpRequestGuildMembers = 8"
definition GatewayOpInvalidSession :: GatewayOp where "GatewayOpInvalidSession = 9"
definition GatewayOpHello :: GatewayOp where "GatewayOpHello = 10"
definition GatewayOpHeartbeatACK :: GatewayOp where "GatewayOpHeartbeatACK = 11"

lemmas GatewayOp_defs =
  GatewayOpDispatch_def GatewayOpHeartbeat_def GatewayOpIdentify_def GatewayOpStatusUpdate_def
  GatewayOpVoiceStateUpdate_def GatewayOpResume_def GatewayOpReconnect_def
  GatewayOpRequestGuildMembers_def GatewayOpInvalidSession_def GatewayOpHello_def
  GatewayOpHeartbeatACK_def

text \<open>
  The close codes \<open>discord.CloseNotAuthenticated\<close>, ... are declared in the same missing
  package; the shard takes them as a parameter.
\<close>

record close_codes =
  CloseNotAuthenticated :: int
  CloseInvalidShard :: int
  CloseShardingRequired :: int
  CloseInvalidAPIVersion :: int
  CloseInvalidIntents :: int
  CloseDisallowedIntents :: int

definition StatusNormalClosure :: int where "StatusNormalClosure = 1000"
definition reconnectCloseCode :: int where "reconnectCloseCode = 4000"

text \<open>The constants of the shard's source file.\<close>

definition identifyRatelimit :: Duration where
  "identifyRatelimit = 5 * Second + 500 * Millisecond"

text \<open>
  \<open>maxReconnectWait = 600\<close> is an untyped constant; compared with and assigned to the
  \<open>time.Duration\<close> variable \<open>wait\<close> it is the duration of 600 nanoseconds.
\<close>

definition maxReconnectWait :: Duration where "maxReconnectWait = 600"
definition gatewayConnectTimeout :: int where "gatewayConnectTimeout = 5"
definition initialMemberChunkTimeout :: Duration where "initialMemberChunkTimeout = 10 * Second"
definition memberChunkTimeout :: Duration where "memberChunkTimeout = 1 * Second"
definition chunkStatePersistTimeout :: Duration where "chunkStatePersistTimeout = 10 * Second"

datatype ShardStatus =
  ShardIdle | ShardWaiting | ShardConnecting | ShardConnected | ShardReady
  | ShardReconnecting | ShardClosed

datatype ShardGroupStatus =
  ShardGroupIdle | ShardGroupStarting | ShardGroupConnecting | ShardGroupReady
  | ShardGroupReplaced | ShardGroupClosed | ShardGroupError

text \<open>\<open>discord.ReceivedPayload\<close>: a frame from the gateway (the trace fields are left out).\<close>

record ReceivedPayload =
  Op :: GatewayOp
  Data :: string
  Sequence :: int
  Type :: string

text \<open>The zero value of the struct, what \<open>readMessage\<close> returns beside an error.\<close>

definition zero_payload :: ReceivedPayload where
  "zero_payload = \<lparr>Op = 0, Data = [], Sequence = 0, Type = []\<rparr>"

text \<open>
  What the shard puts in the \<open>Data\<close> of a \<open>discord.SentPayload\<close>: the sequence number of a
  heartbeat, \<open>discord.Resume{Token, SessionID, Sequence}\<close>, \<open>discord.Identify\<close> (token,
  the three identify properties, compress, large threshold, \<open>[shard_id, shard_count]\<close>,
  presence, guild subscriptions, intents), and
  \<open>discord.RequestGuildMembers{GuildID, Query, Limit}\<close>.
\<close>

datatype sent_data =
    HeartbeatData int
  | ResumeData string string int
  | IdentifyData string "string \<times> string \<times> string" bool int "int \<times> int" string bool int
  | RequestGuildMembersData int string int

text \<open>
  The dynamic value of the \<open>interface{}\<close> argument of \<open>WriteJSON\<close>: a pointer to a
  \<open>SentPayload{Op, Data}\<close> (what \<open>SendEvent\<close> passes), or a value of type
  \<open>discord.GatewayOp\<close>.
\<close>

datatype go_value = SentPayloadPtr int sent_data | GatewayOpValue GatewayOp

text \<open>
  The payload published to consumers: the received frame, the data and extra the state
  step returned (or a shard status update), and the metadata.
\<close>

datatype sandwich_data = StateData string | MessagingStatusUpdate int ShardStatus

record SandwichPayload =
  sp_Received :: ReceivedPayload
  sp_Data :: sandwich_data
  sp_Extra :: string
  sp_Version :: string
  sp_Identifier :: string

subsection \<open>The world and the environment\<close>

text \<open>The two bucket stores: \<open>sh.Manager.Buckets\<close> and \<open>sh.Manager.Sandwich.Buckets\<close>.\<close>

datatype store = ManagerBuckets | SandwichBuckets

text \<open>
  The calls that leave the process, in the order they are made.  \<open>BucketCreate\<close> carries
  the store, the bucket's name, its limit and its duration; \<open>WsWrite\<close> the value whose JSON
  is written as a text frame; \<open>WsClose\<close> the close status; \<open>TimeSleep\<close> the argument of
  \<open>time.After\<close>; \<open>ChanRequeue\<close> the frame put back on the message channel;
  \<open>MQPublish\<close> the channel and the payload handed to the producer client; \<open>StateUpdate\<close>
  the frame handed to the state step.  The \<open>Go...\<close> effects are goroutines started:
  the heartbeat task, the socket reader, the dispatch of a frame, a background chunk flow,
  and the cleanup of a guild's chunk entries after a delay.  \<open>WaitGroupWait\<close> blocks on the
  wait group at an address; \<open>TicketWait\<close> and \<open>TicketFree\<close> are the chunk limiter.
\<close>

datatype effect =
    BucketCreate store string int Duration
  | BucketWait store string
  | BucketReset store string
  | WsDial string
  | WsWrite go_value
  | WsClose int
  | TimeSleep Duration
  | ChanRequeue ReceivedPayload
  | MQPublish string SandwichPayload
  | StateUpdate ReceivedPayload
  | GoHeartbeat
  | GoReader
  | GoDispatch ReceivedPayload
  | GoChunkGuild int
  | GoCleanAfter Duration int
  | WaitGroupWait nat
  | TicketWait
  | TicketFree

text \<open>
  The shard (\<open>Status\<close> ... \<open>sessionID\<close>), the parts of its manager (\<open>mg_\<close>) and of its
  shard group (\<open>sg_\<close> and the three member chunk maps) that it reads or writes, the
  objects the chunk maps point to (atomic booleans, wait group counters, channels that
  are open or closed, each at an address), the log, the virtual time spent in timer
  waits, and the number of questions asked to the environment.

  \<open>wsConn\<close> is the identity of the live connection, if any.  \<open>ctx_done\<close> says whether the
  shard's context is cancelled.  \<open>Retries\<close> is an \<open>int32\<close>.  Sequence numbers, ids and
  counts are only stored and compared, so they are plain integers.  Loggers, operator
  webhooks, traces and the heartbeat time stamps are left out.
\<close>

record world =
  Status :: ShardStatus
  ShardID :: int
  ctx_done :: bool
  wsConn :: "nat option"
  HeartbeatActive :: bool
  HeartbeatInterval :: Duration
  MaxHeartbeatFailures :: Duration
  Retries :: "32 word"
  seq :: int
  sessionID :: string
  mg_Token :: string
  mg_Identifier :: string
  mg_ChannelName :: string
  mg_Retries :: "32 word"
  mg_MaxHeartbeatFailures :: int
  mg_Compression :: bool
  mg_LargeThreshold :: int
  mg_DefaultPresence :: string
  mg_GuildSubscriptions :: bool
  mg_Intents :: int
  mg_Gateway :: GatewayBot
  mg_ProducerClient :: bool
  mg_EventBlacklist :: "string list"
  mg_ProduceBlacklist :: "string list"
  sg_ShardCount :: int
  sg_Status :: ShardGroupStatus
  sg_Error :: string
  sg_ctx_done :: bool
  MemberChunksComplete :: "int \<rightharpoonup> nat"
  MemberChunksCallback :: "int \<rightharpoonup> nat"
  MemberChunkCallbacks :: "int \<rightharpoonup> nat"
  abools :: "nat \<rightharpoonup> bool"
  waitgroups :: "nat \<rightharpoonup> int"
  chan_closed :: "nat \<rightharpoonup> bool"
  next_addr :: nat
  log :: "effect list"
  now :: Duration
  clock :: nat

text \<open>What the first-event wait of \<open>Connect\<close> receives.\<close>

datatype first_event = FirstError error | FirstMessage ReceivedPayload | FirstTimeout

text \<open>
  The environment.  \<open>QuickHash\<close> hashes the token.  \<open>Dial\<close>, \<open>Write\<close>, \<open>Read\<close>,
  \<open>FirstEvent\<close>, \<open>Publish\<close> and \<open>StateDispatch\<close> answer the question with the given number:
  does the dial fail, does the socket write fail, what does the next receive on the
  shard's channels yield (every receive is answered), what ends the first-event wait,
  does the producer client fail, and what does the state step return (data, extra, ok,
  error).  \<open>Marshal\<close> says whether \<open>json.Marshal\<close> fails on a value, \<open>HelloInterval\<close> is
  the heartbeat interval decoded from a HELLO body together with the decoding error,
  \<open>GetBool\<close> is \<open>json.Get(data, "d").ToBool()\<close>, \<open>VERSION\<close> and \<open>GOOS\<close> are the two
  strings of the same name, \<open>codes\<close> are the fatal close codes, and \<open>GroupCloseCode\<close> is
  the status with which \<open>ShardGroup.Close\<close> closes its shards.
\<close>

record env =
  QuickHash :: "string \<Rightarrow> error + string"
  Dial :: "nat \<Rightarrow> error option"
  Write :: "nat \<Rightarrow> error option"
  Read :: "nat \<Rightarrow> error + ReceivedPayload"
  FirstEvent :: "nat \<Rightarrow> first_event"
  Publish :: "nat \<Rightarrow> error option"
  StateDispatch :: "nat \<Rightarrow> ReceivedPayload \<Rightarrow> (string \<times> string) \<times> bool \<times> error option"
  Marshal :: "go_value \<Rightarrow> error option"
  HelloInterval :: "string \<Rightarrow> int \<times> error option"
  GetBool :: "string \<Rightarrow> bool"
  VERSION :: string
  GOOS :: string
  codes :: close_codes
  GroupCloseCode :: int

definition emit :: "effect \<Rightarrow> world \<Rightarrow> world" where
  "emit e w = w\<lparr>log := log w @ [e]\<rparr>"

definition ask :: "world \<Rightarrow> world" where
  "ask w = w\<lparr>clock := clock w + 1\<rparr>"

text \<open>The bucket names \<open>ws:%d:%d\<close> and \<open>gw:%s:%d\<close>.\<close>

definition ws_bucket :: "world \<Rightarrow> string" where
  "ws_bucket w = ''ws:'' @ show_int (ShardID w) @ '':'' @ show_int (sg_ShardCount w)"

definition gw_bucket :: "string \<Rightarrow> int \<Rightarrow> string" where
  "gw_bucket hash concurrencyBucket = ''gw:'' @ hash @ '':'' @ show_int concurrencyBucket"

definition divide_by_zero :: string where
  "divide_by_zero = ''runtime error: integer divide by zero''"

subsection \<open>Writing to the gateway\<close>

text \<open>
  \<open>WriteJSON\<close>.  The test before the bucket wait compares the payload \<open>i\<close>, not the
  opcode \<open>op\<close>, with \<open>discord.GatewayOpHeartbeat\<close>.
\<close>

definition WriteJSON :: "env \<Rightarrow> GatewayOp \<Rightarrow> go_value \<Rightarrow> world \<Rightarrow> world \<times> error option" where
  "WriteJSON env op i w0 =
    (case Marshal env i of
       Some err \<Rightarrow> (w0, Some (Errorf ''writeJSON marshal: '' err))
     | None \<Rightarrow>
         let w1 = (if i \<noteq> GatewayOpValue GatewayOpHeartbeat
                   then emit (BucketWait ManagerBuckets (ws_bucket w0)) w0 else w0)
         in if wsConn w1 \<noteq> None
            then (case Write env (clock w1) of
                    Some err \<Rightarrow> (ask (emit (WsWrite i) w1), Some (Errorf ''writeJSON write: '' err))
                  | None \<Rightarrow> (ask (emit (WsWrite i) w1), None))
            else (w1, None))"

definition SendEvent :: "env \<Rightarrow> GatewayOp \<Rightarrow> sent_data \<Rightarrow> world \<Rightarrow> world \<times> error option" where
  "SendEvent env op d w0 =
    (case WriteJSON env op (SentPayloadPtr op d) w0 of
       (w1, Some err) \<Rightarrow> (w1, Some (Errorf ''sendEvent writeJson: '' err))
     | (w1, None) \<Rightarrow> (w1, None))"

subsection \<open>Publishing, status, closing\<close>

text \<open>
  Modelled from the spec: \<open>Shard.PublishEvent\<close>, which is not among the files.  It wraps
  the payload with the metadata \<open>{version, identifier}\<close> and publishes it through the
  producer client on the manager's channel; without a producer client it fails, as
  \<open>Manager.PublishEvent\<close> does.
\<close>

definition PublishEvent :: "env \<Rightarrow> SandwichPayload \<Rightarrow> world \<Rightarrow> world \<times> error option" where
  "PublishEvent env packet w0 =
    (if mg_ProducerClient w0
     then let w1 = ask (emit (MQPublish (mg_ChannelName w0)
                       (packet\<lparr>sp_Version := VERSION env, sp_Identifier := mg_Identifier w0\<rparr>)) w0)
          in (case Publish env (clock w0) of
                Some err \<Rightarrow> (w1, Some (Errorf ''publishEvent publish: '' err))
              | None \<Rightarrow> (w1, None))
     else (w0, Some (ErrorNew ''publishEvent publish: No active stanClient'')))"

definition SetStatus :: "env \<Rightarrow> ShardStatus \<Rightarrow> world \<Rightarrow> world \<times> error option" where
  "SetStatus env st w0 =
    PublishEvent env
      \<lparr>sp_Received = zero_payload\<lparr>Type := ''SHARD_STATUS''\<rparr>,
       sp_Data = MessagingStatusUpdate (ShardID w0) st,
       sp_Extra = [], sp_Version = [], sp_Identifier = []\<rparr>
      (w0\<lparr>Status := st\<rparr>)"

definition CloseWS :: "int \<Rightarrow> world \<Rightarrow> world" where
  "CloseWS statusCode w0 =
    (if wsConn w0 \<noteq> None then (emit (WsClose statusCode) w0)\<lparr>wsConn := None\<rparr> else w0)"

text \<open>\<open>Close\<close>.  \<open>NewShard\<close> always sets \<open>ctx\<close> and \<open>cancel\<close>, so the cancel is called.\<close>

definition Close :: "env \<Rightarrow> int \<Rightarrow> world \<Rightarrow> world" where
  "Close env code w0 =
    (let w1 = w0\<lparr>ctx_done := True\<rparr>;
         w2 = (if wsConn w1 \<noteq> None then CloseWS code w1 else w1)
     in fst (SetStatus env ShardClosed w2))"

subsection \<open>Connect\<close>

definition Resume :: "env \<Rightarrow> world \<Rightarrow> world \<times> error option" where
  "Resume env w0 =
    SendEvent env GatewayOpResume (ResumeData (mg_Token w0) (sessionID w0) (seq w0)) w0"

definition Identify :: "env \<Rightarrow> world \<Rightarrow> world \<times> outcome" where
  "Identify env w0 =
    (let gw = mg_Gateway w0;
         lim = SessionStartLimit gw;
         w1 = w0\<lparr>mg_Gateway := gw\<lparr>SessionStartLimit := lim\<lparr>Remaining := wrap64 (Remaining lim - 1)\<rparr>\<rparr>\<rparr>
     in case QuickHash env (mg_Token w1) of
          Inl err \<Rightarrow> (w1, Failed err)
        | Inr hash \<Rightarrow>
            (case go_rem (ShardID w1) (MaxConcurrency lim) of
               None \<Rightarrow> (w1, Panicked divide_by_zero)
             | Some b \<Rightarrow>
                 (case SendEvent env GatewayOpIdentify
                         (IdentifyData (mg_Token w1)
                            (GOOS env, ''Sandwich '' @ VERSION env, ''Sandwich '' @ VERSION env)
                            (mg_Compression w1) (mg_LargeThreshold w1)
                            (ShardID w1, sg_ShardCount w1) (mg_DefaultPresence w1)
                            (mg_GuildSubscriptions w1) (mg_Intents w1))
                         (emit (BucketWait SandwichBuckets (gw_bucket hash b)) w1) of
                    (w2, Some err) \<Rightarrow> (w2, Failed err)
                  | (w2, None) \<Rightarrow> (w2, Ok))))"

definition readMessage :: "env \<Rightarrow> world \<Rightarrow> world \<times> (error + ReceivedPayload)" where
  "readMessage env w0 = (ask w0, Read env (clock w0))"

text \<open>
  \<open>FeedWebsocket\<close>: dial, keep the new connection (named by the number of the dial
  question) and start the reader.
\<close>

definition FeedWebsocket :: "env \<Rightarrow> string \<Rightarrow> world \<Rightarrow> world \<times> error option" where
  "FeedWebsocket env u w0 =
    (case Dial env (clock w0) of
       Some err \<Rightarrow> (ask (emit (WsDial u) w0), Some (Errorf ''failed to connect to websocket: '' err))
     | None \<Rightarrow> (emit GoReader ((ask (emit (WsDial u) w0))\<lparr>wsConn := Some (clock w0)\<rparr>), None))"

text \<open>
  The deferred function of \<open>Connect\<close>: with a non-nil \<open>err\<close> and a live socket, close the
  socket.  The model runs it at every exit, with the value \<open>err\<close> has there.
\<close>

definition Connect_deferred :: "error option \<Rightarrow> world \<Rightarrow> world" where
  "Connect_deferred err w0 =
    (if err \<noteq> None \<and> wsConn w0 \<noteq> None then CloseWS StatusNormalClosure w0 else w0)"

text \<open>The wait of five seconds for the first event, error or timeout.\<close>

definition Connect_wait :: "env \<Rightarrow> world \<Rightarrow> world \<times> outcome" where
  "Connect_wait env w0 =
    (case FirstEvent env (clock w0) of
       FirstError err \<Rightarrow>
         (let e = Errorf ''encountered error whilst connecting: '' err
          in (Connect_deferred (Some e) (ask w0), Failed e))
     | FirstMessage msg \<Rightarrow> (emit (ChanRequeue msg) (ask w0), Ok)
     | FirstTimeout \<Rightarrow> (ask w0, Ok))"

text \<open>The reset of the identify bucket, on the manager's store.\<close>

definition Connect_reset :: "env \<Rightarrow> world \<Rightarrow> world \<times> outcome" where
  "Connect_reset env w0 =
    (case QuickHash env (mg_Token w0) of
       Inl err \<Rightarrow> (Connect_deferred (Some err) w0, Failed err)
     | Inr hash \<Rightarrow>
         (case go_rem (ShardID w0) (MaxConcurrency (SessionStartLimit (mg_Gateway w0))) of
            None \<Rightarrow> (w0, Panicked divide_by_zero)
          | Some b \<Rightarrow> Connect_wait env (emit (BucketReset ManagerBuckets (gw_bucket hash b)) w0)))"

text \<open>
  IDENTIFY or RESUME.  \<open>err0\<close> is what \<open>err\<close> holds on entry (the error of decoding HELLO),
  which the deferred function sees if \<open>Identify\<close> panics.
\<close>

definition Connect_session :: "env \<Rightarrow> error option \<Rightarrow> world \<Rightarrow> world \<times> outcome" where
  "Connect_session env err0 w0 =
    (if sessionID w0 = [] \<or> seq w0 = 0
     then (case Identify env w0 of
             (w1, Failed err) \<Rightarrow> (Connect_deferred (Some err) w1, Failed err)
           | (w1, Panicked p) \<Rightarrow> (Connect_deferred err0 w1, Panicked p)
           | (w1, Ok) \<Rightarrow> Connect_reset env w1)
     else (case Resume env w0 of
             (w1, Some err) \<Rightarrow> (Connect_deferred (Some err) w1, Failed err)
           | (w1, None) \<Rightarrow> Connect_reset env (fst (SetStatus env ShardReady w1))))"

text \<open>
  Reading HELLO and starting the heartbeat.  \<open>time.NewTicker\<close> panics on an interval
  that is not positive.
\<close>

definition Connect_hello :: "env \<Rightarrow> world \<Rightarrow> world \<times> outcome" where
  "Connect_hello env w0 =
    (case readMessage env w0 of
       (w1, Inl err) \<Rightarrow> (Connect_deferred (Some err) w1, Failed err)
     | (w1, Inr msg) \<Rightarrow>
         (let (hb, err0) = HelloInterval env (Data msg);
              interval = wrap64 (hb * Millisecond);
              w2 = w1\<lparr>HeartbeatInterval := interval,
                      MaxHeartbeatFailures := wrap64 (interval * mg_MaxHeartbeatFailures w1)\<rparr>
          in if interval \<le> 0
             then (Connect_deferred err0 w2, Panicked ''non-positive interval for NewTicker'')
             else Connect_session env err0
                    (if \<not> HeartbeatActive w2 then emit GoHeartbeat w2 else w2)))"

definition Connect_dial :: "env \<Rightarrow> string \<Rightarrow> world \<Rightarrow> world \<times> outcome" where
  "Connect_dial env gatewayURL w0 =
    (let w1 = fst (SetStatus env ShardConnecting w0)
     in if wsConn w1 = None
        then (case FeedWebsocket env gatewayURL w1 of
                (w2, Some err) \<Rightarrow> (Connect_deferred (Some err) w2, Failed err)
              | (w2, None) \<Rightarrow> Connect_hello env w2)
        else Connect_hello env w1)"

definition Connect :: "env \<Rightarrow> world \<Rightarrow> world \<times> outcome" where
  "Connect env w0 =
    (let w1 = fst (SetStatus env ShardWaiting w0)
     in case go_rem (ShardID w1) (MaxConcurrency (SessionStartLimit (mg_Gateway w1))) of
          None \<Rightarrow> (w1, Panicked divide_by_zero)
        | Some concurrencyBucket \<Rightarrow>
            (let w2 = (if ctx_done w1 then w1\<lparr>ctx_done := False\<rparr> else w1);
                 w3 = emit (BucketCreate ManagerBuckets (ws_bucket w2) 120 Minute) w2
             in case QuickHash env (mg_Token w3) of
                  Inl err \<Rightarrow> (w3, Failed err)
                | Inr hash \<Rightarrow>
                    Connect_dial env (URL (mg_Gateway w3))
                      (emit (BucketCreate SandwichBuckets (gw_bucket hash concurrencyBucket) 1
                               identifyRatelimit) w3)))"

subsection \<open>Reconnect\<close>

definition sleep :: "Duration \<Rightarrow> world \<Rightarrow> world" where
  "sleep d w = (emit (TimeSleep d) w)\<lparr>now := now w + d\<rparr>"

text \<open>
  What no step of \<open>Connect\<close> changes: the retry counter, the session id, the sequence
  number and the token, and then the shard's id and count and the bot's settings.
\<close>

definition fixed ::
  "world \<Rightarrow> 32 word \<times> (string \<times> int \<times> string) \<times>
           (int \<times> int \<times> bool \<times> int \<times> string \<times> bool \<times> int \<times> string \<times> string)" where
  "fixed w = (Retries w, (sessionID w, seq w, mg_Token w),
     (ShardID w, sg_ShardCount w, mg_Compression w, mg_LargeThreshold w, mg_DefaultPresence w,
      mg_GuildSubscriptions w, mg_Intents w, mg_Identifier w, mg_ChannelName w))"

lemma fixed_update [simp]:
  "fixed (w\<lparr>Status := a\<rparr>) = fixed w"
  "fixed (w\<lparr>ctx_done := b\<rparr>) = fixed w"
  "fixed (w\<lparr>wsConn := c\<rparr>) = fixed w"
  "fixed (w\<lparr>HeartbeatInterval := d\<rparr>) = fixed w"
  "fixed (w\<lparr>MaxHeartbeatFailures := d'\<rparr>) = fixed w"
  "fixed (w\<lparr>mg_Gateway := g\<rparr>) = fixed w"
  "fixed (w\<lparr>log := l\<rparr>) = fixed w"
  "fixed (w\<lparr>now := t\<rparr>) = fixed w"
  "fixed (w\<lparr>clock := n\<rparr>) = fixed w"
  "fixed (w\<lparr>sg_Error := s\<rparr>) = fixed w"
  "fixed (w\<lparr>sg_Status := gs\<rparr>) = fixed w"
  "fixed (w\<lparr>sg_ctx_done := b'\<rparr>) = fixed w"
  by (simp_all add: fixed_def)

lemma fixed_emit [simp]: "fixed (emit e w) = fixed w"
  by (simp add: emit_def fixed_def)

lemma fixed_ask [simp]: "fixed (ask w) = fixed w"
  by (simp add: ask_def fixed_def)

lemma fixed_PublishEvent [simp]: "fixed (fst (PublishEvent env p w)) = fixed w"
  by (simp add: PublishEvent_def Let_def emit_def ask_def fixed_def split: option.splits)

lemma fixed_SetStatus [simp]: "fixed (fst (SetStatus env st w)) = fixed w"
  by (simp add: SetStatus_def)

lemma fixed_CloseWS [simp]: "fixed (CloseWS c w) = fixed w"
  by (simp add: CloseWS_def emit_def fixed_def)

lemma fixed_Connect_deferred [simp]: "fixed (Connect_deferred e w) = fixed w"
  by (simp add: Connect_deferred_def)

lemma fixed_WriteJSON [simp]: "fixed (fst (WriteJSON env op i w)) = fixed w"
  by (simp add: WriteJSON_def Let_def split: option.splits)

lemma fixed_SendEvent [simp]: "fixed (fst (SendEvent env op d w)) = fixed w"
proof -
  have "fst (SendEvent env op d w) = fst (WriteJSON env op (SentPayloadPtr op d) w)"
    by (simp add: SendEvent_def split: prod.splits option.splits)
  then show ?thesis by simp
qed

lemma fixed_Identify [simp]: "fixed (fst (Identify env w)) = fixed w"
proof -
  have "\<And>x v. fixed (fst (case SendEvent env GatewayOpIdentify x v of
            (w2, Some err) \<Rightarrow> (w2, Failed err) | (w2, None) \<Rightarrow> (w2, Ok))) = fixed v"
  proof -
    fix x v
    have "fst (case SendEvent env GatewayOpIdentify x v of
            (w2, Some err) \<Rightarrow> (w2, Failed err) | (w2, None) \<Rightarrow> (w2, Ok))
          = fst (SendEvent env GatewayOpIdentify x v)"
      by (simp split: prod.splits option.splits)
    then show "fixed (fst (case SendEvent env GatewayOpIdentify x v of
            (w2, Some err) \<Rightarrow> (w2, Failed err) | (w2, None) \<Rightarrow> (w2, Ok))) = fixed v"
      by simp
  qed
  then show ?thesis
    by (simp add: Identify_def Let_def split: sum.splits option.splits)
qed

lemma fixed_Connect_wait [simp]: "fixed (fst (Connect_wait env w)) = fixed w"
  by (simp add: Connect_wait_def Let_def split: first_event.splits)

lemma fixed_Connect_reset [simp]: "fixed (fst (Connect_reset env w)) = fixed w"
  by (simp add: Connect_reset_def split: sum.splits option.splits)

lemma fixed_Resume [simp]: "fixed (fst (Resume env w)) = fixed w"
  by (simp add: Resume_def)

lemma fixed_Connect_session [simp]: "fixed (fst (Connect_session env e w)) = fixed w"
proof (cases "sessionID w = [] \<or> seq w = 0")
  case True
  obtain w1 r where i: "Identify env w = (w1, r)" by (cases "Identify env w")
  have "fixed w1 = fixed w" using fixed_Identify [of env w] i by simp
  with True i show ?thesis
    by (cases r) (simp_all add: Connect_session_def)
next
  case False
  obtain w1 r where i: "Resume env w = (w1, r)" by (cases "Resume env w")
  have "fixed w1 = fixed w" using fixed_Resume [of env w] i by simp
  with False i show ?thesis
    by (cases r) (simp_all add: Connect_session_def)
qed

lemma fixed_Connect_hello [simp]: "fixed (fst (Connect_hello env w)) = fixed w"
  by (simp add: Connect_hello_def readMessage_def Let_def split: sum.splits prod.splits)

lemma fixed_FeedWebsocket [simp]: "fixed (fst (FeedWebsocket env u w)) = fixed w"
  by (simp add: FeedWebsocket_def split: option.splits)

lemma fixed_Connect_dial [simp]: "fixed (fst (Connect_dial env u w)) = fixed w"
proof -
  obtain w2 r where f: "FeedWebsocket env u (fst (SetStatus env ShardConnecting w)) = (w2, r)"
    by (cases "FeedWebsocket env u (fst (SetStatus env ShardConnecting w))")
  have "fixed w2 = fixed w"
    using fixed_FeedWebsocket [of env u "fst (SetStatus env ShardConnecting w)"] f by simp
  with f show ?thesis
    by (cases r) (simp_all add: Connect_dial_def Let_def)
qed

lemma fixed_Connect [simp]: "fixed (fst (Connect env w)) = fixed w"
  by (simp add: Connect_def Let_def split: sum.splits option.splits)

text \<open>
  \<open>Reconnect\<close>: close, then call \<open>Connect\<close> until it succeeds or the retries run out.
  \<open>Reconnect_loop\<close> is the \<open>for\<close> loop, with the local \<open>wait\<close> as an argument.  Each
  failure takes one from \<open>Retries\<close>, so the loop ends.
\<close>

function Reconnect_loop :: "env \<Rightarrow> int \<Rightarrow> Duration \<Rightarrow> world \<Rightarrow> world \<times> outcome" where
  "Reconnect_loop env code wait w0 =
    (case Connect env w0 of
       (w1, Ok) \<Rightarrow> (w1\<lparr>Retries := mg_Retries w1\<rparr>, Ok)
     | (w1, Panicked p) \<Rightarrow> (w1, Panicked p)
     | (w1, Failed err) \<Rightarrow>
         (if sint (Retries w1 - 1) \<le> 0
          then Connect env (Close env code (w1\<lparr>Retries := Retries w1 - 1\<rparr>))
          else Reconnect_loop env code
                 (if wait * 2 > maxReconnectWait then maxReconnectWait else wait * 2)
                 (sleep wait (w1\<lparr>Retries := Retries w1 - 1\<rparr>))))"
  by pat_completeness auto
termination
proof (relation "measure (\<lambda>(env, code, wait, w). unat (Retries w))")
  show "wf (measure (\<lambda>(env, code, wait, w). unat (Retries w)))" by simp
next
  fix env :: env and code :: int and wait :: Duration and w0 x1 :: world and x2 :: outcome
    and err :: error
  assume c: "(x1, x2) = Connect env w0" and "\<not> sint (Retries x1 - 1) \<le> 0"
  have r: "Retries x1 = Retries w0"
    using fixed_Connect [of env w0] c [symmetric] by (simp add: fixed_def)
  have "Retries x1 \<noteq> 0"
  proof
    assume "Retries x1 = 0"
    then have "sint (Retries x1 - 1) = - 1" by simp
    with \<open>\<not> sint (Retries x1 - 1) \<le> 0\<close> show False by simp
  qed
  then have "unat (Retries x1 - 1) < unat (Retries x1)"
    by (simp add: unat_minus_one unat_gt_0)
  then show "((env, code,
        if maxReconnectWait < wait * 2 then maxReconnectWait else wait * 2,
        sleep wait (x1\<lparr>Retries := Retries x1 - 1\<rparr>)), env, code, wait, w0)
      \<in> measure (\<lambda>(env, code, wait, w). unat (Retries w))"
    using r by (simp add: sleep_def emit_def)
qed

declare Reconnect_loop.simps [simp del]

definition Reconnect :: "env \<Rightarrow> int \<Rightarrow> world \<Rightarrow> world \<times> outcome" where
  "Reconnect env code w0 =
    Reconnect_loop env code Second (fst (SetStatus env ShardReconnecting (Close env code w0)))"

subsection \<open>Handling a frame\<close>

text \<open>
  \<open>OnEvent\<close>.  The \<open>switch\<close> on the opcode; the cases that do not return fall through
  to the store of the frame's sequence number at the end of the method.  The dispatch
  runs in a goroutine of its own.
\<close>

definition OnEvent :: "env \<Rightarrow> ReceivedPayload \<Rightarrow> world \<Rightarrow> world \<times> outcome" where
  "OnEvent env msg w0 =
    (if Op msg = GatewayOpHeartbeat then
       (case SendEvent env GatewayOpHeartbeat (HeartbeatData (seq w0)) w0 of
          (w1, Some err) \<Rightarrow>
            (case Reconnect env StatusNormalClosure w1 of
               (w2, Panicked p) \<Rightarrow> (w2, Panicked p)
             | (w2, r) \<Rightarrow> (w2, Ok))
        | (w1, None) \<Rightarrow> (w1\<lparr>seq := Sequence msg\<rparr>, Ok))
     else if Op msg = GatewayOpInvalidSession then
       (let resumable = GetBool env (Data msg);
            w1 = (if \<not> resumable then w0\<lparr>sessionID := [], seq := 0\<rparr> else w0)
        in case Reconnect env reconnectCloseCode w1 of
             (w2, Panicked p) \<Rightarrow> (w2, Panicked p)
           | (w2, r) \<Rightarrow> (w2\<lparr>seq := Sequence msg\<rparr>, Ok))
     else if Op msg = GatewayOpHello then
       (let (hb, err0) = HelloInterval env (Data msg);
            interval = wrap64 (hb * Millisecond);
            w1 = w0\<lparr>HeartbeatInterval := interval,
                    MaxHeartbeatFailures := wrap64 (interval * mg_MaxHeartbeatFailures w0)\<rparr>
        in if interval \<le> 0 then (w1, Panicked ''non-positive interval for NewTicker'')
           else (w1, Ok))
     else if Op msg = GatewayOpReconnect then
       (case Reconnect env reconnectCloseCode w0 of
          (w1, Panicked p) \<Rightarrow> (w1, Panicked p)
        | (w1, r) \<Rightarrow> (w1, Ok))
     else if Op msg = GatewayOpDispatch then
       ((emit (GoDispatch msg) w0)\<lparr>seq := Sequence msg\<rparr>, Ok)
     else if Op msg = GatewayOpHeartbeatACK then (w0, Ok)
     else if Op msg = GatewayOpVoiceStateUpdate then (w0\<lparr>seq := Sequence msg\<rparr>, Ok)
     else if Op msg = GatewayOpIdentify \<or> Op msg = GatewayOpRequestGuildMembers
             \<or> Op msg = GatewayOpResume \<or> Op msg = GatewayOpStatusUpdate
       then (w0\<lparr>seq := Sequence msg\<rparr>, Ok)
     else (w0, Ok))"

text \<open>
  \<open>OnDispatch\<close>.  \<open>gotils.StringSliceInclude\<close> is membership in the slice.  The state
  step is the injected \<open>StateDispatch\<close>; the log keeps that it ran.
\<close>

definition OnDispatch :: "env \<Rightarrow> ReceivedPayload \<Rightarrow> world \<Rightarrow> world \<times> error option" where
  "OnDispatch env msg w0 =
    (if \<not> mg_ProducerClient w0 then (w0, Some (ErrorNew ''no producer client found''))
     else if Type msg \<in> set (mg_EventBlacklist w0) then (w0, None)
     else
       (let ((rdata, rextra), ok, err) = StateDispatch env (clock w0) msg;
            w1 = ask (emit (StateUpdate msg) w0)
        in case err of
             Some e \<Rightarrow> (w1, Some (Errorf (''on dispatch failure for '' @ Type msg @ '': '') e))
           | None \<Rightarrow>
               if \<not> ok then (w1, None)
               else if Type msg \<in> set (mg_ProduceBlacklist w1) then (w1, None)
               else PublishEvent env
                      \<lparr>sp_Received = msg, sp_Data = StateData rdata, sp_Extra = rextra,
                       sp_Version = [], sp_Identifier = []\<rparr> w1))"

subsection \<open>Listen\<close>









subsection \<open>Guild member chunking\<close>

text \<open>
  \<open>cleanGuildChunks\<close>: delete the guild from the three maps.  \<open>close\<close> panics on the nil
  channel that the map yields for a missing key, and on a channel that is closed.
\<close>

definition cleanGuildChunks :: "int \<Rightarrow> world \<Rightarrow> world \<times> outcome" where
  "cleanGuildChunks guildID w0 =
    (let w1 = w0\<lparr>MemberChunksCallback := (MemberChunksCallback w0)(guildID := None)\<rparr>
     in case MemberChunkCallbacks w1 guildID of
          None \<Rightarrow> (w1, Panicked ''close of nil channel'')
        | Some ch \<Rightarrow>
            if chan_closed w1 ch = Some True then (w1, Panicked ''close of closed channel'')
            else (w1\<lparr>chan_closed := (chan_closed w1)(ch \<mapsto> True),
                      MemberChunkCallbacks := (MemberChunkCallbacks w1)(guildID := None),
                      MemberChunksComplete := (MemberChunksComplete w1)(guildID := None)\<rparr>, Ok))"

text \<open>
  The timers and the member chunk signals.  A flow is given \<open>arrivals\<close>: the delays of the
  chunk signals still to come for its guild, each counted from the moment the flow last
  set its timer; after the last one no signal comes.  A \<open>select\<close> between the signal
  channel and a timer of duration \<open>d\<close> receives the signal when its delay is below \<open>d\<close>
  and the timer's tick otherwise; \<open>now\<close> moves on by the time waited.

  \<open>memberChunks\<close> is the loop of that name: every signal in time sets the timer to
  \<open>memberChunkTimeout\<close> again, and the tick ends the loop.
\<close>

fun memberChunks :: "Duration list \<Rightarrow> world \<Rightarrow> world" where
  "memberChunks [] w0 = w0\<lparr>now := now w0 + memberChunkTimeout\<rparr>"
| "memberChunks (g # gs) w0 =
    (if g < memberChunkTimeout then memberChunks gs (w0\<lparr>now := now w0 + g\<rparr>)
     else w0\<lparr>now := now w0 + memberChunkTimeout\<rparr>)"

text \<open>
  \<open>chunkGuild\<close>.  The atomic boolean, the channel and the wait group are new objects at
  the next three addresses.  \<open>finish\<close> is the deferred release of the limiter ticket.
  \<open>wg.Done()\<close> takes the counter, set to 1 by \<open>wg.Add(1)\<close>, to 0.
\<close>

definition chunkGuild :: "env \<Rightarrow> Duration list \<Rightarrow> int \<Rightarrow> bool \<Rightarrow> world \<Rightarrow> world \<times> outcome" where
  "chunkGuild env arrivals guildID waitForTicket w0 =
    (let finish = (\<lambda>w. if waitForTicket then emit TicketFree w else w);
         w1 = (if waitForTicket then emit TicketWait w0 else w0);
         completed = next_addr w1;
         chunkCallbacks = next_addr w1 + 1;
         wg = next_addr w1 + 2;
         w2 = w1\<lparr>next_addr := next_addr w1 + 3,
                 abools := (abools w1)(completed \<mapsto> False),
                 MemberChunksComplete := (MemberChunksComplete w1)(guildID \<mapsto> completed)\<rparr>;
         w3 = w2\<lparr>chan_closed := (chan_closed w2)(chunkCallbacks \<mapsto> False),
                 MemberChunkCallbacks := (MemberChunkCallbacks w2)(guildID \<mapsto> chunkCallbacks)\<rparr>;
         w4 = w3\<lparr>waitgroups := (waitgroups w3)(wg \<mapsto> 1),
                 MemberChunksCallback := (MemberChunksCallback w3)(guildID \<mapsto> wg)\<rparr>
     in case SendEvent env GatewayOpRequestGuildMembers
               (RequestGuildMembersData guildID [] 0) w4 of
          (w5, Some err) \<Rightarrow>
            (case cleanGuildChunks guildID w5 of
               (w6, Panicked p) \<Rightarrow> (finish w6, Panicked p)
             | (w6, r) \<Rightarrow> (finish w6, Failed err))
        | (w5, None) \<Rightarrow>
            (case arrivals of
               g # gs \<Rightarrow>
                 if g < initialMemberChunkTimeout
                 then (let w6 = memberChunks gs (w5\<lparr>now := now w5 + g\<rparr>);
                           w7 = w6\<lparr>waitgroups := (waitgroups w6)(wg \<mapsto> 0)\<rparr>;
                           w8 = w7\<lparr>abools := (abools w7)(completed \<mapsto> True)\<rparr>
                       in (finish (emit (GoCleanAfter chunkStatePersistTimeout guildID) w8), Ok))
                 else (case cleanGuildChunks guildID
                              (w5\<lparr>now := now w5 + initialMemberChunkTimeout\<rparr>) of
                         (w6, Panicked p) \<Rightarrow> (finish w6, Panicked p)
                       | (w6, r) \<Rightarrow> (finish w6, Failed ErrChunkTimeout))
             | [] \<Rightarrow>
                 (case cleanGuildChunks guildID
                         (w5\<lparr>now := now w5 + initialMemberChunkTimeout\<rparr>) of
                    (w6, Panicked p) \<Rightarrow> (finish w6, Panicked p)
                  | (w6, r) \<Rightarrow> (finish w6, Failed ErrChunkTimeout))))"

text \<open>
  \<open>ChunkGuild\<close>.  \<open>chunksCallback.Wait()\<close> returns once the counter of the wait group is
  0.  With any other counter the caller stays blocked until another goroutine calls
  \<open>Done\<close>; the model then answers \<open>None\<close>: the call has not returned.  Without \<open>wait\<close> the
  flow is started in a goroutine, which runs \<open>chunkGuild guildID True\<close> when it is scheduled.
\<close>

definition ChunkGuild ::
  "env \<Rightarrow> Duration list \<Rightarrow> int \<Rightarrow> bool \<Rightarrow> world \<Rightarrow> world \<times> outcome option" where
  "ChunkGuild env arrivals guildID wait w0 =
    (case MemberChunksComplete w0 guildID of
       Some completed \<Rightarrow>
         if abools w0 completed \<noteq> Some True
         then (case MemberChunksCallback w0 guildID of
                 Some chunksCallback \<Rightarrow>
                   (emit (WaitGroupWait chunksCallback) w0,
                    if waitgroups w0 chunksCallback = Some 0 then Some Ok else None)
               | None \<Rightarrow> (w0, Some Ok))
         else (w0, Some Ok)
     | None \<Rightarrow>
         if wait
         then (case chunkGuild env arrivals guildID False w0 of (w1, r) \<Rightarrow> (w1, Some r))
         else (emit (GoChunkGuild guildID) w0, Some Ok))"

subsection \<open>A concrete shard and a concrete environment\<close>

text \<open>
  An idle shard 0 of a group of one shard, with three retries, no session and no socket,
  and a gateway that answers every dial, write and publish, sends HELLO with an interval
  of 41250 ms and then nothing for five seconds.  The close codes are the numbers the
  spec lists.
\<close>

definition shard0 :: world where
  "shard0 =
    \<lparr>Status = ShardIdle, ShardID = 0, ctx_done = False, wsConn = None,
     HeartbeatActive = False, HeartbeatInterval = 0, MaxHeartbeatFailures = 0,
     Retries = 3, seq = 0, sessionID = [],
     mg_Token = ''token'', mg_Identifier = ''bot'', mg_ChannelName = ''sandwich'',
     mg_Retries = 3, mg_MaxHeartbeatFailures = 5, mg_Compression = True,
     mg_LargeThreshold = 250, mg_DefaultPresence = [], mg_GuildSubscriptions = False,
     mg_Intents = 0,
     mg_Gateway = \<lparr>URL = ''wss://gateway'', Shards = 1,
                    SessionStartLimit = \<lparr>Remaining = 1000, MaxConcurrency = 1\<rparr>\<rparr>,
     mg_ProducerClient = True, mg_EventBlacklist = [], mg_ProduceBlacklist = [],
     sg_ShardCount = 1, sg_Status = ShardGroupConnecting, sg_Error = [], sg_ctx_done = False,
     MemberChunksComplete = Map.empty, MemberChunksCallback = Map.empty,
     MemberChunkCallbacks = Map.empty, abools = Map.empty, waitgroups = Map.empty,
     chan_closed = Map.empty, next_addr = 0, log = [], now = 0, clock = 0\<rparr>"

definition env0 :: env where
  "env0 =
    \<lparr>QuickHash = (\<lambda>t. Inr ''hash''), Dial = (\<lambda>n. None), Write = (\<lambda>n. None),
     Read = (\<lambda>n. Inr \<lparr>Op = GatewayOpHello, Data = ''hello'', Sequence = 0, Type = []\<rparr>),
     FirstEvent = (\<lambda>n. FirstTimeout), Publish = (\<lambda>n. None),
     StateDispatch = (\<lambda>n m. ((Data m, []), True, None)), Marshal = (\<lambda>v. None),
     HelloInterval = (\<lambda>d. (41250, None)), GetBool = (\<lambda>d. False),
     VERSION = ''1'', GOOS = ''linux'',
     codes = \<lparr>CloseNotAuthenticated = 4004, CloseInvalidShard = 4010,
              CloseShardingRequired = 4011, CloseInvalidAPIVersion = 4012,
              CloseInvalidIntents = 4013, CloseDisallowedIntents = 4014\<rparr>,
     GroupCloseCode = 1000\<rparr>"

text \<open>A dispatch frame, and a read error that carries close code 4014.\<close>

definition guild_create :: ReceivedPayload where
  "guild_create = \<lparr>Op = GatewayOpDispatch, Data = ''guild'', Sequence = 1, Type = ''GUILD_CREATE''\<rparr>"


text \<open>The opcodes that \<open>OnEvent\<close> names; every other one is the \<open>default\<close> case.\<close>

definition known_op :: "GatewayOp \<Rightarrow> bool" where
  "known_op op = (op \<in> {GatewayOpDispatch, GatewayOpHeartbeat, GatewayOpIdentify,
     GatewayOpStatusUpdate, GatewayOpVoiceStateUpdate, GatewayOpResume, GatewayOpReconnect,
     GatewayOpRequestGuildMembers, GatewayOpInvalidSession, GatewayOpHello, GatewayOpHeartbeatACK})"


text \<open>Frames for the examples: a dispatch numbered 3, a heartbeat ack, an invalid session.\<close>

definition dispatch3 :: ReceivedPayload where
  "dispatch3 = \<lparr>Op = GatewayOpDispatch, Data = ''message'', Sequence = 3, Type = ''MESSAGE_CREATE''\<rparr>"

definition heartbeat_ack :: ReceivedPayload where
  "heartbeat_ack = \<lparr>Op = GatewayOpHeartbeatACK, Data = [], Sequence = 0, Type = []\<rparr>"

definition invalid_session :: ReceivedPayload where
  "invalid_session = \<lparr>Op = GatewayOpInvalidSession, Data = ''false'', Sequence = 0, Type = []\<rparr>"

text \<open>
  The frame \<open>chunkGuild\<close> sends for a guild, and shard 0 with a live socket.
\<close>

definition request_members :: "int \<Rightarrow> go_value" where
  "request_members guildID =
     SentPayloadPtr GatewayOpRequestGuildMembers (RequestGuildMembersData guildID [] 0)"

definition shard1 :: world where "shard1 = shard0\<lparr>wsConn := Some 0\<rparr>"

text \<open>
  Two requests for guild 7 on that shard.  The first caller does not wait: its flow is
  started in a goroutine, which first waits for a ticket of the chunk limiter.  Before
  that flow has its ticket a second caller, who waits, finds no entry for the guild and
  runs a flow of its own (\<open>first_flow\<close>: one signal after 100 ms, then silence).  Then the
  goroutine of the first caller gets its ticket and runs its flow (\<open>second_flow\<close>, with
  one signal after 100 ms as well).
\<close>

definition background_call :: world where
  "background_call = fst (ChunkGuild env0 [] 7 False shard1)"

definition first_flow :: world where
  "first_flow = fst (ChunkGuild env0 [100 * Millisecond] 7 True background_call)"

definition second_flow :: world where
  "second_flow = fst (chunkGuild env0 [100 * Millisecond] 7 True first_flow)"

text \<open>
  For the handshake: the bucket waits and socket writes of a log, the body of the IDENTIFY
  frame of a shard, what the handshake adds to the waits and writes, a shard with a
  session to resume, and the HELLO frame.
\<close>

definition is_talk :: "effect \<Rightarrow> bool" where
  "is_talk e = (case e of WsWrite v \<Rightarrow> True | BucketWait s n \<Rightarrow> True | _ \<Rightarrow> False)"

definition talk :: "world \<Rightarrow> effect list" where
  "talk w = filter is_talk (log w)"

definition identify_data :: "env \<Rightarrow> world \<Rightarrow> sent_data" where
  "identify_data env w =
     IdentifyData (mg_Token w) (GOOS env, ''Sandwich '' @ VERSION env, ''Sandwich '' @ VERSION env)
       (mg_Compression w) (mg_LargeThreshold w) (ShardID w, sg_ShardCount w)
       (mg_DefaultPresence w) (mg_GuildSubscriptions w) (mg_Intents w)"

definition handshake :: "env \<Rightarrow> string \<Rightarrow> world \<Rightarrow> effect list" where
  "handshake env h w =
     (if sessionID w = [] \<or> seq w = 0
      then [BucketWait SandwichBuckets
              (gw_bucket h (ShardID w smod MaxConcurrency (SessionStartLimit (mg_Gateway w)))),
            BucketWait ManagerBuckets (ws_bucket w),
            WsWrite (SentPayloadPtr GatewayOpIdentify (identify_data env w))]
      else [BucketWait ManagerBuckets (ws_bucket w),
            WsWrite (SentPayloadPtr GatewayOpResume
                       (ResumeData (mg_Token w) (sessionID w) (seq w)))])"

definition resumable :: world where
  "resumable = shard0\<lparr>sessionID := ''S1'', seq := 42\<rparr>"

definition hello :: ReceivedPayload where
  "hello = \<lparr>Op = GatewayOpHello, Data = ''hello'', Sequence = 0, Type = []\<rparr>"

section \<open>The claims\<close>

subsection \<open>C6: the session-start limit check of the RPC handler\<close>

text \<open>
  Claim C6.  The claim: a shard group is started whenever the number of shard ids is at
  most \<open>session_start_limit.remaining\<close>, in particular when the two are equal.  The handler
  compares with \<open><\<close>: a request for one shard while exactly one session remains is
  answered with a failure and \<open>Scale\<close> is not called.
\<close>

theorem RPCManagerShardGroupCreate_equal_refused:
  "scale_call (RPCManagerShardGroupCreate
      [''bot'' \<mapsto> \<lparr>URL = ''wss://gateway'', Shards = 1,
                     SessionStartLimit = \<lparr>Remaining = 1, MaxConcurrency = 1\<rparr>\<rparr>]
      (Inl (ErrorNew ''unused'')) (\<lambda>raw n. [0])
      (Inr \<lparr>Manager = ''bot'', AutoShard = False, ShardCount = 1, AutoIDs = True,
            RawShardIDs = [], ShardIDs = []\<rparr>)) = None
   \<and> response (RPCManagerShardGroupCreate
      [''bot'' \<mapsto> \<lparr>URL = ''wss://gateway'', Shards = 1,
                     SessionStartLimit = \<lparr>Remaining = 1, MaxConcurrency = 1\<rparr>\<rparr>]
      (Inl (ErrorNew ''unused'')) (\<lambda>raw n. [0])
      (Inr \<lparr>Manager = ''bot'', AutoShard = False, ShardCount = 1, AutoIDs = True,
            RawShardIDs = [], ShardIDs = []\<rparr>))
     = \<lparr>data = DataString ''Not enough sessions to start 1 shard(s). 1 remain'',
        success = False, status = StatusBadRequest\<rparr>"
  by (simp add: RPCManagerShardGroupCreate_def GenerateShardIDs_def show_int_def digits.simps digit_def
      StatusBadRequest_def)

subsection \<open>C1: heartbeats and the send bucket\<close>

text \<open>
  Claim C1.  The claim: \<open>WriteJSON(op, payload)\<close> waits on the send bucket
  \<open>ws:{shard_id}:{shard_count}\<close> exactly when \<open>op\<close> is not Heartbeat, so a heartbeat reaches
  the socket without taking a slot.  The comment in \<open>WriteJSON\<close> says the same; the test
  however compares the payload with the opcode constant, and the payload \<open>SendEvent\<close>
  passes is a pointer to a \<open>SentPayload\<close>.  The heartbeat of shard 0 with sequence 42 waits
  on the bucket \<open>ws:0:1\<close> before it is written.
\<close>

theorem SendEvent_heartbeat_waits_on_bucket:
  "log (fst (SendEvent env0 GatewayOpHeartbeat (HeartbeatData 42) (shard0\<lparr>wsConn := Some 0\<rparr>)))
    = [BucketWait ManagerBuckets ''ws:0:1'',
       WsWrite (SentPayloadPtr GatewayOpHeartbeat (HeartbeatData 42))]"
  by code_simp

subsection \<open>C10: the limit of the send bucket\<close>

text \<open>
  Claim C10.  The claim: \<open>Connect\<close> creates the bucket \<open>ws:{shard_id}:{shard_count}\<close> with
  a limit of 115 sends per 60 seconds.  The comment in \<open>WriteJSON\<close> speaks of 115 too, but
  \<open>Connect\<close> passes 120: the two buckets that \<open>Connect\<close> creates for shard 0 are
  \<open>ws:0:1\<close> with limit 120 per minute and \<open>gw:hash:0\<close> with limit 1 per 5.5 seconds.
\<close>

theorem Connect_creates_send_bucket_of_120:
  "[e \<leftarrow> log (fst (Connect env0 shard0)). case e of BucketCreate s n l d \<Rightarrow> True | _ \<Rightarrow> False]
    = [BucketCreate ManagerBuckets ''ws:0:1'' 120 (60 * Second),
       BucketCreate SandwichBuckets ''gw:hash:0'' 1 (5 * Second + 500 * Millisecond)]"
  by code_simp

subsection \<open>C3: the waits of Reconnect\<close>

text \<open>
  Claim C3.  The claim: the sleep between failed \<open>Connect\<close> attempts starts at one second,
  doubles after each failure and is capped at 600 seconds, so that the wait after \<open>n\<close>
  failures is \<open>min(2^n s, 600 s)\<close>.  The cap \<open>maxReconnectWait = 600\<close> is compared with a
  \<open>time.Duration\<close>, so it is 600 nanoseconds: with five retries and a gateway that refuses
  every dial, the shard sleeps one second and then three times 600 nanoseconds.
\<close>

theorem Reconnect_sleeps_600_nanoseconds:
  "[d. TimeSleep d \<leftarrow> log (fst (Reconnect (env0\<lparr>Dial := (\<lambda>n. Some (ErrorNew ''refused''))\<rparr>)
        StatusNormalClosure (shard0\<lparr>Retries := 5\<rparr>)))]
    = [1 * Second, 600 * Nanosecond, 600 * Nanosecond, 600 * Nanosecond]"
  by code_simp

subsection \<open>C7: the blacklists of the dispatch pipeline\<close>

text \<open>
  Claim C7, as stated: an event whose type is in \<open>event_blacklist\<close> is dropped before the
  state step and nothing is published; one whose type is in \<open>produce_blacklist\<close> still
  goes through the state step but is not published; every other event is published.
  The last part fails: the state step also says whether to publish.  With a state step
  that answers \<open>ok = false\<close>, a GUILD_CREATE that is on neither list goes through the state
  step and is not published, and \<open>OnDispatch\<close> returns nil.
\<close>

theorem OnDispatch_not_ok_counterexample:
  "Type guild_create \<notin> set (mg_EventBlacklist shard0) \<and>
   Type guild_create \<notin> set (mg_ProduceBlacklist shard0) \<and>
   log (fst (OnDispatch (env0\<lparr>StateDispatch := (\<lambda>n m. ((Data m, []), False, None))\<rparr>)
               guild_create shard0)) = [StateUpdate guild_create] \<and>
   snd (OnDispatch (env0\<lparr>StateDispatch := (\<lambda>n m. ((Data m, []), False, None))\<rparr>)
               guild_create shard0) = None"
  by (simp add: OnDispatch_def shard0_def env0_def guild_create_def emit_def ask_def)

text \<open>
  Claim C7, amended.  With a producer client, what \<open>OnDispatch\<close> adds to the log is:
  nothing when the type is in \<open>event_blacklist\<close>; otherwise the state step, followed by
  the publication of the wrapped payload (the data and extra of the state step, the
  version and the identifier, on the manager's channel) exactly when the state step
  returned no error and \<open>ok\<close>, and the type is not in \<open>produce_blacklist\<close>.
\<close>

theorem OnDispatch_log:
  "mg_ProducerClient w \<Longrightarrow>
   log (fst (OnDispatch env msg w)) =
     log w @
     (if Type msg \<in> set (mg_EventBlacklist w) then []
      else StateUpdate msg #
        (case StateDispatch env (clock w) msg of
           ((rdata, rextra), ok, err) \<Rightarrow>
             if err = None \<and> ok \<and> Type msg \<notin> set (mg_ProduceBlacklist w)
             then [MQPublish (mg_ChannelName w)
                     \<lparr>sp_Received = msg, sp_Data = StateData rdata, sp_Extra = rextra,
                      sp_Version = VERSION env, sp_Identifier = mg_Identifier w\<rparr>]
             else []))"
  by (simp add: OnDispatch_def PublishEvent_def emit_def ask_def Let_def
      split: prod.splits option.splits)

theorem OnDispatch_log_witness:
  "mg_ProducerClient shard0 \<and>
   log (fst (OnDispatch env0 guild_create shard0)) =
     [StateUpdate guild_create,
      MQPublish ''sandwich''
        \<lparr>sp_Received = guild_create, sp_Data = StateData ''guild'', sp_Extra = [],
         sp_Version = ''1'', sp_Identifier = ''bot''\<rparr>]"
  using OnDispatch_log [of shard0 env0 guild_create]
  by (simp add: shard0_def env0_def guild_create_def)

subsection \<open>C4: fatal close codes in Listen\<close>




subsection \<open>C2: the stored sequence number\<close>

lemma fixed_Close [simp]: "fixed (Close env code w) = fixed w"
  by (simp add: Close_def Let_def)

lemma session_Retries_update [simp]: "snd (fixed (w\<lparr>Retries := r\<rparr>)) = snd (fixed w)"
  by (simp add: fixed_def)

lemma fixed_sleep [simp]: "fixed (sleep d w) = fixed w"
  by (simp add: sleep_def)

text \<open>\<open>Reconnect\<close> leaves the session id, the sequence number and the token alone.\<close>

lemma session_Reconnect_loop:
  "snd (fixed (fst (Reconnect_loop env code wait w))) = snd (fixed w)"
proof (induction env code wait w rule: Reconnect_loop.induct)
  case (1 env code wait w0)
  obtain w1 r where c: "Connect env w0 = (w1, r)" by (cases "Connect env w0")
  have f: "fixed w1 = fixed w0" using fixed_Connect [of env w0] c by simp
  show ?case
  proof (cases r)
    case Ok
    with c f show ?thesis by (simp add: Reconnect_loop.simps [of env code wait w0])
  next
    case (Panicked p)
    with c f show ?thesis by (simp add: Reconnect_loop.simps [of env code wait w0])
  next
    case (Failed err)
    show ?thesis
    proof (cases "sint (Retries w1 - 1) \<le> 0")
      case True
      have "snd (fixed (fst (Connect env (Close env code (w1\<lparr>Retries := Retries w1 - 1\<rparr>)))))
            = snd (fixed w1)"
        by simp
      with True Failed c f show ?thesis
        by (simp add: Reconnect_loop.simps [of env code wait w0])
    next
      case False
      have "snd (fixed (fst (Reconnect_loop env code
                 (if wait * 2 > maxReconnectWait then maxReconnectWait else wait * 2)
                 (sleep wait (w1\<lparr>Retries := Retries w1 - 1\<rparr>)))))
            = snd (fixed (sleep wait (w1\<lparr>Retries := Retries w1 - 1\<rparr>)))"
        using "1.IH" [OF c [symmetric] Failed False] .
      with False Failed c f show ?thesis
        by (simp add: Reconnect_loop.simps [of env code wait w0])
    qed
  qed
qed

lemma session_Reconnect [simp]: "snd (fixed (fst (Reconnect env code w))) = snd (fixed w)"
  by (simp add: Reconnect_def session_Reconnect_loop)

lemma seq_Reconnect [simp]: "seq (fst (Reconnect env code w)) = seq w"
  using session_Reconnect [of env code w] by (simp add: fixed_def)

lemma sessionID_Reconnect [simp]: "sessionID (fst (Reconnect env code w)) = sessionID w"
  using session_Reconnect [of env code w] by (simp add: fixed_def)

text \<open>
  Claim C2, as stated: across every payload handled by \<open>OnEvent\<close> the stored sequence
  number never decreases, except that a non-resumable InvalidSession sets it to 0.
  \<open>OnEvent\<close> stores the number of the frame as it comes, without comparing: on a shard
  whose sequence is 5, a dispatch numbered 3 (not an InvalidSession) takes it down to 3.
\<close>

theorem OnEvent_sequence_decreases_counterexample:
  "Op dispatch3 \<noteq> GatewayOpInvalidSession \<and> seq (shard0\<lparr>seq := 5\<rparr>) = 5 \<and>
   seq (fst (OnEvent env0 dispatch3 (shard0\<lparr>seq := 5\<rparr>))) = 3"
  by (simp add: OnEvent_def dispatch3_def shard0_def GatewayOp_defs emit_def)

text \<open>
  Claim C2, amended.  A dispatch frame replaces the stored sequence number by its own.
  Hello, HeartbeatAck, Reconnect and the opcodes \<open>OnEvent\<close> does not know leave it as it
  is.  An InvalidSession frame whose body is not resumable is handled as if the shard had
  no session id and sequence 0 from the start (both are cleared before the reconnect),
  and the session id is empty afterwards.
\<close>

theorem OnEvent_sequence:
  "(Op msg = GatewayOpDispatch \<longrightarrow> seq (fst (OnEvent env msg w)) = Sequence msg) \<and>
   (Op msg = GatewayOpHello \<or> Op msg = GatewayOpHeartbeatACK \<or> Op msg = GatewayOpReconnect
      \<or> \<not> known_op (Op msg) \<longrightarrow> seq (fst (OnEvent env msg w)) = seq w) \<and>
   (Op msg = GatewayOpInvalidSession \<and> \<not> GetBool env (Data msg) \<longrightarrow>
      OnEvent env msg w = OnEvent env msg (w\<lparr>sessionID := [], seq := 0\<rparr>) \<and>
      sessionID (fst (OnEvent env msg w)) = [])"
proof (intro conjI impI)
  assume "Op msg = GatewayOpDispatch"
  then show "seq (fst (OnEvent env msg w)) = Sequence msg"
    by (simp add: OnEvent_def GatewayOp_defs)
next
  assume a: "Op msg = GatewayOpHello \<or> Op msg = GatewayOpHeartbeatACK \<or> Op msg = GatewayOpReconnect
      \<or> \<not> known_op (Op msg)"
  obtain w1 r where rc: "Reconnect env reconnectCloseCode w = (w1, r)"
    by (cases "Reconnect env reconnectCloseCode w")
  have s1: "seq w1 = seq w" using seq_Reconnect [of env reconnectCloseCode w] rc by simp
  from a show "seq (fst (OnEvent env msg w)) = seq w"
  proof (elim disjE)
    assume "Op msg = GatewayOpHello"
    then show ?thesis
      by (simp add: OnEvent_def GatewayOp_defs Let_def split: prod.splits)
  next
    assume "Op msg = GatewayOpHeartbeatACK"
    then show ?thesis by (simp add: OnEvent_def GatewayOp_defs)
  next
    assume "Op msg = GatewayOpReconnect"
    with rc s1 show ?thesis by (cases r) (simp_all add: OnEvent_def GatewayOp_defs)
  next
    assume "\<not> known_op (Op msg)"
    then show ?thesis by (simp add: OnEvent_def known_op_def)
  qed
next
  assume a: "Op msg = GatewayOpInvalidSession \<and> \<not> GetBool env (Data msg)"
  then show "OnEvent env msg w = OnEvent env msg (w\<lparr>sessionID := [], seq := 0\<rparr>)"
    by (simp add: OnEvent_def GatewayOp_defs)
next
  assume a: "Op msg = GatewayOpInvalidSession \<and> \<not> GetBool env (Data msg)"
  obtain w1 r where rc: "Reconnect env reconnectCloseCode (w\<lparr>sessionID := [], seq := 0\<rparr>) = (w1, r)"
    by (cases "Reconnect env reconnectCloseCode (w\<lparr>sessionID := [], seq := 0\<rparr>)")
  have "sessionID w1 = []"
    using sessionID_Reconnect [of env reconnectCloseCode "w\<lparr>sessionID := [], seq := 0\<rparr>"] rc by simp
  with a rc show "sessionID (fst (OnEvent env msg w)) = []"
    by (cases r) (simp_all add: OnEvent_def GatewayOp_defs)
qed

theorem OnEvent_sequence_witness:
  "seq (fst (OnEvent env0 guild_create (shard0\<lparr>seq := 0\<rparr>))) = 1 \<and>
   seq (fst (OnEvent env0 heartbeat_ack (shard0\<lparr>seq := 42\<rparr>))) = 42 \<and>
   sessionID (fst (OnEvent env0 invalid_session (shard0\<lparr>seq := 42, sessionID := ''S1''\<rparr>))) = []"
proof -
  have a: "seq (fst (OnEvent env0 guild_create (shard0\<lparr>seq := 0\<rparr>))) = 1"
    using OnEvent_sequence [of guild_create env0 "shard0\<lparr>seq := 0\<rparr>"]
    by (simp add: guild_create_def)
  have b: "seq (fst (OnEvent env0 heartbeat_ack (shard0\<lparr>seq := 42\<rparr>))) = 42"
    using OnEvent_sequence [of heartbeat_ack env0 "shard0\<lparr>seq := 42\<rparr>"]
    by (simp add: heartbeat_ack_def)
  have "Op invalid_session = GatewayOpInvalidSession \<and> \<not> GetBool env0 (Data invalid_session)"
    by (simp add: invalid_session_def env0_def)
  then have c: "sessionID (fst (OnEvent env0 invalid_session
                   (shard0\<lparr>seq := 42, sessionID := ''S1''\<rparr>))) = []"
    using OnEvent_sequence [of invalid_session env0 "shard0\<lparr>seq := 42, sessionID := ''S1''\<rparr>"]
    by blast
  from a b c show ?thesis by simp
qed

subsection \<open>C9: coalescing of chunk requests\<close>

text \<open>
  Claim C9.  The claim: while a flow for a guild is in flight a further \<open>ChunkGuild\<close> sends
  nothing and waits on the guild's callback, hence \<open>N\<close> concurrent calls send exactly one
  RequestGuildMembers; the comments in \<open>ChunkGuild\<close> and \<open>chunkGuild\<close> describe the same
  protocol.  \<open>ChunkGuild\<close> looks the guild up and only the flow it starts stores the entry,
  for a background flow after the wait for a limiter ticket.  In the two requests of
  \<open>second_flow\<close> the first call returns at once having started a goroutine, the second
  call still finds no entry and runs its flow, the goroutine then runs its own, and two
  RequestGuildMembers frames are written.
\<close>

theorem ChunkGuild_two_calls_two_requests:
  "ChunkGuild env0 [] 7 False shard1 = (emit (GoChunkGuild 7) shard1, Some Ok) \<and>
   MemberChunksComplete background_call 7 = None \<and>
   snd (ChunkGuild env0 [100 * Millisecond] 7 True background_call) = Some Ok \<and>
   snd (chunkGuild env0 [100 * Millisecond] 7 True first_flow) = Ok \<and>
   [e \<leftarrow> log second_flow. e = WsWrite (request_members 7)]
     = [WsWrite (request_members 7), WsWrite (request_members 7)]"
proof -
  have a: "ChunkGuild env0 [] 7 False shard1 = (emit (GoChunkGuild 7) shard1, Some Ok)"
    by (simp add: ChunkGuild_def shard1_def shard0_def)
  have b: "MemberChunksComplete background_call 7 = None"
    by code_simp
  have c: "snd (ChunkGuild env0 [100 * Millisecond] 7 True background_call) = Some Ok"
    by code_simp
  have d: "snd (chunkGuild env0 [100 * Millisecond] 7 True first_flow) = Ok"
    by code_simp
  have e: "[e \<leftarrow> log second_flow. e = WsWrite (request_members 7)]
     = [WsWrite (request_members 7), WsWrite (request_members 7)]"
    by code_simp
  from a b c d e show ?thesis by simp
qed

subsection \<open>C8: the timers and the cleanup of a chunk flow\<close>

text \<open>
  Claim C8.  The claim, for every flow: without a signal in 10 seconds the three entries
  of the guild are removed and \<open>ErrChunkTimeout\<close> is returned; otherwise the flow completes
  after a second of silence, sets \<open>chunks_complete\<close>, releases the callback and removes the
  three entries 10 seconds later.  The three maps are keyed by guild and shared by all
  flows of the guild, and \<open>ChunkGuild\<close> does not keep a second flow from starting.  In the
  two requests of \<open>second_flow\<close> both flows get their signal and complete.  The cleanup of
  the first flow, ten seconds after its end, then removes the entries of the second
  flow, and the cleanup of the second flow, ten seconds after its own end, closes the nil
  channel of the missing entry and panics.
\<close>

theorem chunkGuild_second_cleanup_panics:
  "snd (ChunkGuild env0 [100 * Millisecond] 7 True background_call) = Some Ok \<and>
   snd (chunkGuild env0 [100 * Millisecond] 7 True first_flow) = Ok \<and>
   [e \<leftarrow> log second_flow. e = GoCleanAfter chunkStatePersistTimeout 7]
     = [GoCleanAfter chunkStatePersistTimeout 7, GoCleanAfter chunkStatePersistTimeout 7] \<and>
   snd (cleanGuildChunks 7 second_flow) = Ok \<and>
   MemberChunkCallbacks (fst (cleanGuildChunks 7 second_flow)) 7 = None \<and>
   snd (cleanGuildChunks 7 (fst (cleanGuildChunks 7 second_flow)))
     = Panicked ''close of nil channel''"
proof -
  have a: "snd (ChunkGuild env0 [100 * Millisecond] 7 True background_call) = Some Ok"
    by code_simp
  have b: "snd (chunkGuild env0 [100 * Millisecond] 7 True first_flow) = Ok"
    by code_simp
  have c: "[e \<leftarrow> log second_flow. e = GoCleanAfter chunkStatePersistTimeout 7]
     = [GoCleanAfter chunkStatePersistTimeout 7, GoCleanAfter chunkStatePersistTimeout 7]"
    by code_simp
  have d: "snd (cleanGuildChunks 7 second_flow) = Ok"
    by code_simp
  have e: "MemberChunkCallbacks (fst (cleanGuildChunks 7 second_flow)) 7 = None"
    by code_simp
  have f: "snd (cleanGuildChunks 7 (fst (cleanGuildChunks 7 second_flow)))
     = Panicked ''close of nil channel''"
    by code_simp
  from a b c d e f show ?thesis by simp
qed

subsection \<open>X1: a chunk flow up to its return\<close>

text \<open>The loop \<open>memberChunks\<close> takes the signals up to the first gap of a second.\<close>

lemma memberChunks_now:
  "memberChunks gs w =
     w\<lparr>now := now w + sum_list (takeWhile (\<lambda>g. g < memberChunkTimeout) gs) + memberChunkTimeout\<rparr>"
  by (induction gs arbitrary: w) (simp_all add: add.assoc)

text \<open>
  Property X1.  Take a flow whose RequestGuildMembers went out (the payload marshals and
  the socket write, if there is a socket, does not fail), and look at the world when
  \<open>chunkGuild\<close> returns.

  If no signal comes, or the first comes after \<open>initialMemberChunkTimeout\<close> (10 s) or
  later, the flow returns \<open>ErrChunkTimeout\<close> ten seconds after the send, the guild is in
  none of the three maps, and the counter of the flow's wait group is still 1.

  Otherwise the flow returns nil one second (\<open>memberChunkTimeout\<close>) after the last signal
  that came less than a second after the one before; the guild's \<open>MemberChunksComplete\<close>
  entry is the flow's and is set, the counter of its wait group is 0, the three entries
  are there, and the cleanup has been scheduled after \<open>chunkStatePersistTimeout\<close> (10 s).
  The log shows the one frame the flow wrote.
\<close>

theorem chunkGuild_flow:
  assumes "Marshal env (request_members guildID) = None"
    and "Write env (clock w) = None"
  shows "case chunkGuild env arrivals guildID waitForTicket w of (w', r) \<Rightarrow>
    (case arrivals of
       g # gs \<Rightarrow>
         if g < initialMemberChunkTimeout
         then r = Ok
            \<and> MemberChunksComplete w' guildID = Some (next_addr w)
            \<and> abools w' (next_addr w) = Some True
            \<and> MemberChunksCallback w' guildID = Some (next_addr w + 2)
            \<and> waitgroups w' (next_addr w + 2) = Some 0
            \<and> MemberChunkCallbacks w' guildID = Some (next_addr w + 1)
            \<and> chan_closed w' (next_addr w + 1) = Some False
            \<and> now w' = now w + g + sum_list (takeWhile (\<lambda>d. d < memberChunkTimeout) gs)
                          + memberChunkTimeout
            \<and> log w' = log w @ (if waitForTicket then [TicketWait] else [])
                  @ [BucketWait ManagerBuckets (ws_bucket w)]
                  @ (if wsConn w \<noteq> None then [WsWrite (request_members guildID)] else [])
                  @ [GoCleanAfter chunkStatePersistTimeout guildID]
                  @ (if waitForTicket then [TicketFree] else [])
         else r = Failed ErrChunkTimeout
            \<and> MemberChunksComplete w' guildID = None
            \<and> MemberChunksCallback w' guildID = None
            \<and> MemberChunkCallbacks w' guildID = None
            \<and> waitgroups w' (next_addr w + 2) = Some 1
            \<and> now w' = now w + initialMemberChunkTimeout
     | [] \<Rightarrow>
         r = Failed ErrChunkTimeout
       \<and> MemberChunksComplete w' guildID = None
       \<and> MemberChunksCallback w' guildID = None
       \<and> MemberChunkCallbacks w' guildID = None
       \<and> waitgroups w' (next_addr w + 2) = Some 1
       \<and> now w' = now w + initialMemberChunkTimeout)"
  using assms
  by (simp add: chunkGuild_def SendEvent_def WriteJSON_def cleanGuildChunks_def
      request_members_def memberChunks_now emit_def ask_def ws_bucket_def Let_def
      GatewayOp_defs
      split: list.splits)

theorem chunkGuild_flow_witness:
  "(case chunkGuild env0 [100 * Millisecond, 200 * Millisecond, 200 * Millisecond, 200 * Millisecond]
           7 False shard1 of (w', r) \<Rightarrow>
      r = Ok \<and> MemberChunksComplete w' 7 = Some 0 \<and> abools w' 0 = Some True
    \<and> MemberChunksCallback w' 7 = Some 2 \<and> waitgroups w' 2 = Some 0
    \<and> MemberChunkCallbacks w' 7 = Some 1
    \<and> now w' = 1700 * Millisecond
    \<and> log w' = [BucketWait ManagerBuckets ''ws:0:1'', WsWrite (request_members 7),
                 GoCleanAfter (10 * Second) 7])
   \<and> (case chunkGuild env0 [] 7 False shard1 of (w', r) \<Rightarrow>
      r = Failed ErrChunkTimeout \<and> MemberChunksComplete w' 7 = None
    \<and> MemberChunksCallback w' 7 = None \<and> MemberChunkCallbacks w' 7 = None
    \<and> waitgroups w' 2 = Some 1
    \<and> now w' = 10 * Second)"
proof -
  have m: "Marshal env0 (request_members 7) = None" by (simp add: env0_def)
  have wr: "Write env0 (clock shard1) = None" by (simp add: env0_def)
  have s: "next_addr shard1 = 0" "now shard1 = 0" "log shard1 = []" "wsConn shard1 = Some 0"
    "ws_bucket shard1 = ''ws:0:1''"
    by (simp_all add: shard1_def shard0_def ws_bucket_def show_int_def digits.simps digit_def)
  show ?thesis
    using chunkGuild_flow [where arrivals = "[100 * Millisecond, 200 * Millisecond, 200 * Millisecond, 200 * Millisecond]"
          and waitForTicket = False, OF m wr]
      chunkGuild_flow [where arrivals = "[]" and waitForTicket = False, OF m wr]
    by (simp add: s initialMemberChunkTimeout_def memberChunkTimeout_def chunkStatePersistTimeout_def
        Millisecond_def Second_def numeral_2_eq_2 split: prod.splits)
qed

subsection \<open>C5: IDENTIFY or RESUME\<close>

lemma talk_update [simp]:
  "talk (w\<lparr>Status := a\<rparr>) = talk w"
  "talk (w\<lparr>ctx_done := b\<rparr>) = talk w"
  "talk (w\<lparr>wsConn := c\<rparr>) = talk w"
  "talk (w\<lparr>HeartbeatInterval := d\<rparr>) = talk w"
  "talk (w\<lparr>MaxHeartbeatFailures := d'\<rparr>) = talk w"
  "talk (w\<lparr>mg_Gateway := g\<rparr>) = talk w"
  "talk (w\<lparr>clock := n\<rparr>) = talk w"
  by (simp_all add: talk_def)

lemma talk_emit: "talk (emit e w) = talk w @ (if is_talk e then [e] else [])"
  by (simp add: talk_def emit_def)

lemma talk_ask [simp]: "talk (ask w) = talk w"
  by (simp add: ask_def)

lemma talk_PublishEvent [simp]: "talk (fst (PublishEvent env p w)) = talk w"
  by (simp add: PublishEvent_def Let_def talk_emit is_talk_def split: option.splits)

lemma talk_SetStatus [simp]: "talk (fst (SetStatus env st w)) = talk w"
  by (simp add: SetStatus_def)

lemma talk_CloseWS [simp]: "talk (CloseWS c w) = talk w"
  by (simp add: CloseWS_def talk_emit is_talk_def)

lemma talk_Connect_deferred [simp]: "talk (Connect_deferred e w) = talk w"
  by (simp add: Connect_deferred_def)

lemma talk_Connect_wait [simp]: "talk (fst (Connect_wait env w)) = talk w"
  by (simp add: Connect_wait_def Let_def talk_emit is_talk_def split: first_event.splits)

lemma talk_Connect_reset [simp]: "talk (fst (Connect_reset env w)) = talk w"
  by (simp add: Connect_reset_def talk_emit is_talk_def split: sum.splits option.splits)

lemma Status_CloseWS [simp]: "Status (CloseWS c w) = Status w"
  by (simp add: CloseWS_def emit_def)

lemma Status_Connect_deferred [simp]: "Status (Connect_deferred e w) = Status w"
  by (simp add: Connect_deferred_def)

lemma Status_Connect_wait [simp]: "Status (fst (Connect_wait env w)) = Status w"
  by (simp add: Connect_wait_def Let_def emit_def ask_def split: first_event.splits)

lemma Status_Connect_reset [simp]: "Status (fst (Connect_reset env w)) = Status w"
  by (simp add: Connect_reset_def emit_def split: sum.splits option.splits)

lemma Status_SetStatus [simp]: "Status (fst (SetStatus env st w)) = st"
  by (simp add: SetStatus_def PublishEvent_def emit_def ask_def Let_def split: option.splits)

lemma SendEvent_sent:
  assumes "Marshal env (SentPayloadPtr op d) = None" and "wsConn w \<noteq> None"
  shows "talk (fst (SendEvent env op d w))
           = talk w @ [BucketWait ManagerBuckets (ws_bucket w), WsWrite (SentPayloadPtr op d)]"
    and "snd (SendEvent env op d w) = None \<longleftrightarrow> Write env (clock w) = None"
  using assms
  by (auto simp add: SendEvent_def WriteJSON_def Let_def talk_def emit_def ask_def is_talk_def
      split: option.splits)

lemma ws_bucket_fixed: "fixed w' = fixed w \<Longrightarrow> ws_bucket w' = ws_bucket w"
  by (simp add: fixed_def ws_bucket_def)

lemma identify_data_fixed: "fixed w' = fixed w \<Longrightarrow> identify_data env w' = identify_data env w"
  by (simp add: fixed_def identify_data_def)

lemma Connect_session_talk:
  assumes conn: "wsConn w \<noteq> None"
    and marshal: "\<forall>v. Marshal env v = None"
    and hash: "QuickHash env (mg_Token w) = Inr h"
    and rem: "go_rem (ShardID w) (MaxConcurrency (SessionStartLimit (mg_Gateway w))) = Some b"
  shows "talk (fst (Connect_session env e w)) =
     talk w @
     (if sessionID w = [] \<or> seq w = 0
      then [BucketWait SandwichBuckets (gw_bucket h b), BucketWait ManagerBuckets (ws_bucket w),
            WsWrite (SentPayloadPtr GatewayOpIdentify (identify_data env w))]
      else [BucketWait ManagerBuckets (ws_bucket w),
            WsWrite (SentPayloadPtr GatewayOpResume
                       (ResumeData (mg_Token w) (sessionID w) (seq w)))])"
    and "\<not> (sessionID w = [] \<or> seq w = 0) \<Longrightarrow> Write env (clock w) = None
           \<Longrightarrow> Status (fst (Connect_session env e w)) = ShardReady"
proof -
  let ?w1 = "w\<lparr>mg_Gateway := (mg_Gateway w)\<lparr>SessionStartLimit := (SessionStartLimit (mg_Gateway w))
                 \<lparr>Remaining := wrap64 (Remaining (SessionStartLimit (mg_Gateway w)) - 1)\<rparr>\<rparr>\<rparr>"
  let ?w2 = "emit (BucketWait SandwichBuckets (gw_bucket h b)) ?w1"
  let ?d = "identify_data env w"
  have w2: "wsConn ?w2 \<noteq> None" "ws_bucket ?w2 = ws_bucket w"
    "talk ?w2 = talk w @ [BucketWait SandwichBuckets (gw_bucket h b)]"
    using conn by (simp_all add: emit_def ws_bucket_def talk_def is_talk_def)
  have m: "Marshal env (SentPayloadPtr GatewayOpIdentify ?d) = None"
          "Marshal env (SentPayloadPtr GatewayOpResume (ResumeData (mg_Token w) (sessionID w) (seq w))) = None"
    using marshal by simp_all
  obtain w3 r3 where s3: "SendEvent env GatewayOpIdentify ?d ?w2 = (w3, r3)"
    by (cases "SendEvent env GatewayOpIdentify ?d ?w2")
  have t3: "talk w3 = talk w @ [BucketWait SandwichBuckets (gw_bucket h b),
              BucketWait ManagerBuckets (ws_bucket w), WsWrite (SentPayloadPtr GatewayOpIdentify ?d)]"
    using SendEvent_sent(1) [OF m(1) w2(1)] s3 w2 by simp
  have idf: "Identify env w = (w3, case r3 of Some err \<Rightarrow> Failed err | None \<Rightarrow> Ok)"
    using hash rem s3
    by (simp add: Identify_def Let_def identify_data_def split: option.splits)
  obtain w4 r4 where s4: "Resume env w = (w4, r4)" by (cases "Resume env w")
  have t4: "talk w4 = talk w @ [BucketWait ManagerBuckets (ws_bucket w),
              WsWrite (SentPayloadPtr GatewayOpResume (ResumeData (mg_Token w) (sessionID w) (seq w)))]"
    using SendEvent_sent(1) [OF m(2) conn] s4 by (simp add: Resume_def)
  have r4: "r4 = None \<longleftrightarrow> Write env (clock w) = None"
    using SendEvent_sent(2) [OF m(2) conn] s4 by (simp add: Resume_def)
  show "talk (fst (Connect_session env e w)) =
     talk w @
     (if sessionID w = [] \<or> seq w = 0
      then [BucketWait SandwichBuckets (gw_bucket h b), BucketWait ManagerBuckets (ws_bucket w),
            WsWrite (SentPayloadPtr GatewayOpIdentify (identify_data env w))]
      else [BucketWait ManagerBuckets (ws_bucket w),
            WsWrite (SentPayloadPtr GatewayOpResume
                       (ResumeData (mg_Token w) (sessionID w) (seq w)))])"
  proof (cases "sessionID w = [] \<or> seq w = 0")
    case True
    then show ?thesis using idf t3
      by (cases r3) (simp_all add: Connect_session_def)
  next
    case False
    then show ?thesis using s4 t4
      by (cases r4) (simp_all add: Connect_session_def)
  qed
  show "\<not> (sessionID w = [] \<or> seq w = 0) \<Longrightarrow> Write env (clock w) = None
           \<Longrightarrow> Status (fst (Connect_session env e w)) = ShardReady"
    using s4 r4 by (simp add: Connect_session_def)
qed

lemma handshake_cong:
  "fixed w' = fixed w \<Longrightarrow> mg_Gateway w' = mg_Gateway w \<Longrightarrow> handshake env h w' = handshake env h w"
  by (simp add: handshake_def fixed_def ws_bucket_def identify_data_def)

lemma Connect_session_from:
  assumes f: "fixed w' = fixed w" and g: "mg_Gateway w' = mg_Gateway w" and t: "talk w' = talk w"
    and conn: "wsConn w' \<noteq> None"
    and marshal: "\<forall>v. Marshal env v = None"
    and hash: "QuickHash env (mg_Token w) = Inr h"
    and conc: "MaxConcurrency (SessionStartLimit (mg_Gateway w)) \<noteq> 0"
  shows "talk (fst (Connect_session env e w')) = talk w @ handshake env h w"
    and "\<not> (sessionID w = [] \<or> seq w = 0) \<Longrightarrow> \<forall>n. Write env n = None
           \<Longrightarrow> Status (fst (Connect_session env e w')) = ShardReady"
proof -
  have tok: "mg_Token w' = mg_Token w" "sessionID w' = sessionID w" "seq w' = seq w"
    "ShardID w' = ShardID w"
    using f by (simp_all add: fixed_def)
  have hash': "QuickHash env (mg_Token w') = Inr h" using hash tok by simp
  have rem: "go_rem (ShardID w') (MaxConcurrency (SessionStartLimit (mg_Gateway w')))
       = Some (ShardID w smod MaxConcurrency (SessionStartLimit (mg_Gateway w)))"
    using conc g tok by (simp add: go_rem_def)
  have "talk (fst (Connect_session env e w')) = talk w' @ handshake env h w'"
    using Connect_session_talk(1) [OF conn marshal hash' rem, of e] g tok
    by (simp add: handshake_def)
  then show "talk (fst (Connect_session env e w')) = talk w @ handshake env h w"
    using t handshake_cong [OF f g] by simp
  show "\<not> (sessionID w = [] \<or> seq w = 0) \<Longrightarrow> \<forall>n. Write env n = None
           \<Longrightarrow> Status (fst (Connect_session env e w')) = ShardReady"
    using Connect_session_talk(2) [OF conn marshal hash' rem, of e] tok by simp
qed

lemma Connect_hello_from:
  assumes f: "fixed w' = fixed w" and g: "mg_Gateway w' = mg_Gateway w" and t: "talk w' = talk w"
    and conn: "wsConn w' \<noteq> None"
    and marshal: "\<forall>v. Marshal env v = None"
    and hash: "QuickHash env (mg_Token w) = Inr h"
    and conc: "MaxConcurrency (SessionStartLimit (mg_Gateway w)) \<noteq> 0"
    and read: "\<forall>n. Read env n = Inr (frames n)"
    and intv: "\<forall>d. 0 < wrap64 (fst (HelloInterval env d) * Millisecond)"
  shows "talk (fst (Connect_hello env w')) = talk w @ handshake env h w"
    and "\<not> (sessionID w = [] \<or> seq w = 0) \<Longrightarrow> \<forall>n. Write env n = None
           \<Longrightarrow> Status (fst (Connect_hello env w')) = ShardReady"
proof -
  obtain hb err0 where hi: "HelloInterval env (Data (frames (clock w'))) = (hb, err0)"
    by (cases "HelloInterval env (Data (frames (clock w')))")
  have pos: "0 < wrap64 (hb * Millisecond)" using intv [rule_format, of "Data (frames (clock w'))"] hi by simp
  let ?w2 = "(ask w')\<lparr>HeartbeatInterval := wrap64 (hb * Millisecond),
               MaxHeartbeatFailures := wrap64 (wrap64 (hb * Millisecond) * mg_MaxHeartbeatFailures (ask w'))\<rparr>"
  let ?w3 = "if \<not> HeartbeatActive ?w2 then emit GoHeartbeat ?w2 else ?w2"
  have eq: "Connect_hello env w' = Connect_session env err0 ?w3"
    using read hi pos by (simp add: Connect_hello_def readMessage_def Let_def)
  have p1: "fixed ?w3 = fixed w" using f by simp
  have p2: "mg_Gateway ?w3 = mg_Gateway w" using g by (simp add: emit_def ask_def)
  have p3: "talk ?w3 = talk w" using t by (simp add: talk_emit is_talk_def)
  have p4: "wsConn ?w3 \<noteq> None" using conn by (simp add: emit_def ask_def)
  note p = p1 p2 p3 p4
  show "talk (fst (Connect_hello env w')) = talk w @ handshake env h w"
    unfolding eq by (rule Connect_session_from(1) [OF p marshal hash conc])
  show "\<not> (sessionID w = [] \<or> seq w = 0) \<Longrightarrow> \<forall>n. Write env n = None
           \<Longrightarrow> Status (fst (Connect_hello env w')) = ShardReady"
    unfolding eq by (rule Connect_session_from(2) [OF p marshal hash conc])
qed

lemma Connect_dial_from:
  assumes f: "fixed w' = fixed w" and g: "mg_Gateway w' = mg_Gateway w" and t: "talk w' = talk w"
    and marshal: "\<forall>v. Marshal env v = None"
    and hash: "QuickHash env (mg_Token w) = Inr h"
    and conc: "MaxConcurrency (SessionStartLimit (mg_Gateway w)) \<noteq> 0"
    and read: "\<forall>n. Read env n = Inr (frames n)"
    and intv: "\<forall>d. 0 < wrap64 (fst (HelloInterval env d) * Millisecond)"
    and dial: "\<forall>n. Dial env n = None"
  shows "talk (fst (Connect_dial env u w')) = talk w @ handshake env h w"
    and "\<not> (sessionID w = [] \<or> seq w = 0) \<Longrightarrow> \<forall>n. Write env n = None
           \<Longrightarrow> Status (fst (Connect_dial env u w')) = ShardReady"
proof -
  let ?w1 = "fst (SetStatus env ShardConnecting w')"
  let ?w2 = "emit GoReader ((ask (emit (WsDial u) ?w1))\<lparr>wsConn := Some (clock ?w1)\<rparr>)"
  let ?w3 = "if wsConn ?w1 = None then ?w2 else ?w1"
  have g1: "mg_Gateway ?w1 = mg_Gateway w'"
    by (simp add: SetStatus_def PublishEvent_def emit_def ask_def Let_def split: option.splits)
  have eq: "Connect_dial env u w' = Connect_hello env ?w3"
    using dial by (simp add: Connect_dial_def FeedWebsocket_def Let_def)
  have p1: "fixed ?w3 = fixed w" using f by simp
  have p2: "mg_Gateway ?w3 = mg_Gateway w" using g g1 by (simp add: emit_def ask_def)
  have p3: "talk ?w3 = talk w" using t by (simp add: talk_emit is_talk_def)
  have p4: "wsConn ?w3 \<noteq> None" by (simp add: emit_def ask_def)
  note p = p1 p2 p3 p4
  show "talk (fst (Connect_dial env u w')) = talk w @ handshake env h w"
    unfolding eq by (rule Connect_hello_from(1) [OF p marshal hash conc read intv])
  show "\<not> (sessionID w = [] \<or> seq w = 0) \<Longrightarrow> \<forall>n. Write env n = None
           \<Longrightarrow> Status (fst (Connect_dial env u w')) = ShardReady"
    unfolding eq by (rule Connect_hello_from(2) [OF p marshal hash conc read intv])
qed

text \<open>
  Claim C5.  Take a \<open>Connect\<close> that gets as far as HELLO: the concurrency is not zero,
  the token hashes, the dial succeeds, a frame arrives, its heartbeat interval is
  positive; payloads marshal.  Then the bucket waits and socket writes that \<open>Connect\<close>
  adds to the log are: with an empty session id or sequence 0, the wait on the identify
  bucket \<open>gw:{hash}:{bucket}\<close>, the wait on the send bucket and the IDENTIFY frame;
  otherwise only the wait on the send bucket and the RESUME frame with the token, the
  session id and the sequence, so IDENTIFY is not sent and the identify bucket is not
  waited on.  On the RESUME path, when the write succeeds, the status after \<open>Connect\<close>
  is Ready.
\<close>

theorem Connect_identify_or_resume:
  assumes conc: "MaxConcurrency (SessionStartLimit (mg_Gateway w)) \<noteq> 0"
    and hash: "QuickHash env (mg_Token w) = Inr h"
    and dial: "\<forall>n. Dial env n = None"
    and read: "\<forall>n. Read env n = Inr (frames n)"
    and intv: "\<forall>d. 0 < wrap64 (fst (HelloInterval env d) * Millisecond)"
    and marshal: "\<forall>v. Marshal env v = None"
  shows "talk (fst (Connect env w)) =
     talk w @
     (if sessionID w = [] \<or> seq w = 0
      then [BucketWait SandwichBuckets
              (gw_bucket h (ShardID w smod MaxConcurrency (SessionStartLimit (mg_Gateway w)))),
            BucketWait ManagerBuckets (ws_bucket w),
            WsWrite (SentPayloadPtr GatewayOpIdentify (identify_data env w))]
      else [BucketWait ManagerBuckets (ws_bucket w),
            WsWrite (SentPayloadPtr GatewayOpResume
                       (ResumeData (mg_Token w) (sessionID w) (seq w)))])
   \<and> (\<not> (sessionID w = [] \<or> seq w = 0) \<and> (\<forall>n. Write env n = None)
        \<longrightarrow> Status (fst (Connect env w)) = ShardReady)"
proof -
  let ?w1 = "fst (SetStatus env ShardWaiting w)"
  let ?w2 = "if ctx_done ?w1 then ?w1\<lparr>ctx_done := False\<rparr> else ?w1"
  let ?w3 = "emit (BucketCreate ManagerBuckets (ws_bucket ?w2) 120 Minute) ?w2"
  let ?b = "ShardID w smod MaxConcurrency (SessionStartLimit (mg_Gateway w))"
  let ?w4 = "emit (BucketCreate SandwichBuckets (gw_bucket h ?b) 1 identifyRatelimit) ?w3"
  have g1: "mg_Gateway ?w1 = mg_Gateway w"
    by (simp add: SetStatus_def PublishEvent_def emit_def ask_def Let_def split: option.splits)
  have f1: "fixed ?w1 = fixed w" by simp
  then have s1: "ShardID ?w1 = ShardID w" "mg_Token ?w1 = mg_Token w"
    by (simp_all add: fixed_def)
  have f3: "fixed ?w3 = fixed w" by simp
  then have tok3: "mg_Token ?w3 = mg_Token w" by (simp add: fixed_def)
  have g3: "mg_Gateway ?w3 = mg_Gateway w" using g1 by (simp add: emit_def)
  have eq: "Connect env w = Connect_dial env (URL (mg_Gateway w)) ?w4"
    using conc hash g1 s1 tok3 g3
    by (simp add: Connect_def Let_def go_rem_def)
  have p1: "fixed ?w4 = fixed w" by simp
  have p2: "mg_Gateway ?w4 = mg_Gateway w" using g1 by (simp add: emit_def)
  have p3: "talk ?w4 = talk w" by (simp add: talk_emit is_talk_def)
  note p = p1 p2 p3
  have a: "talk (fst (Connect env w)) = talk w @ handshake env h w"
    unfolding eq by (rule Connect_dial_from(1) [OF p marshal hash conc read intv dial])
  have b: "\<not> (sessionID w = [] \<or> seq w = 0) \<Longrightarrow> \<forall>n. Write env n = None
           \<Longrightarrow> Status (fst (Connect env w)) = ShardReady"
    unfolding eq by (rule Connect_dial_from(2) [OF p marshal hash conc read intv dial])
  from a b show ?thesis by (simp add: handshake_def)
qed

theorem Connect_identify_or_resume_witness:
  "talk (fst (Connect env0 shard0)) =
     [BucketWait SandwichBuckets ''gw:hash:0'', BucketWait ManagerBuckets ''ws:0:1'',
      WsWrite (SentPayloadPtr GatewayOpIdentify
        (IdentifyData ''token'' (''linux'', ''Sandwich 1'', ''Sandwich 1'') True 250 (0, 1) []
           False 0))]
   \<and> talk (fst (Connect env0 resumable)) =
     [BucketWait ManagerBuckets ''ws:0:1'',
      WsWrite (SentPayloadPtr GatewayOpResume (ResumeData ''token'' ''S1'' 42))]
   \<and> Status (fst (Connect env0 resumable)) = ShardReady"
proof -
  have e: "\<forall>n. Dial env0 n = None" "\<forall>n. Read env0 n = Inr ((\<lambda>n. hello) n)"
    "\<forall>d. 0 < wrap64 (fst (HelloInterval env0 d) * Millisecond)"
    "\<forall>v. Marshal env0 v = None" "\<forall>n. Write env0 n = None"
    by (simp_all add: env0_def hello_def wrap64_def Millisecond_def)
  have z: "(0::int) smod 1 = 0" by code_simp
  have a0: "MaxConcurrency (SessionStartLimit (mg_Gateway shard0)) \<noteq> 0"
    "QuickHash env0 (mg_Token shard0) = Inr ''hash''"
    by (simp_all add: shard0_def env0_def)
  have a1: "MaxConcurrency (SessionStartLimit (mg_Gateway resumable)) \<noteq> 0"
    "QuickHash env0 (mg_Token resumable) = Inr ''hash''"
    by (simp_all add: resumable_def shard0_def env0_def)
  have s0: "talk shard0 = []" "sessionID shard0 = []" "ws_bucket shard0 = ''ws:0:1''"
    "gw_bucket ''hash'' 0 = ''gw:hash:0''"
    "ShardID shard0 = 0" "MaxConcurrency (SessionStartLimit (mg_Gateway shard0)) = 1"
    "identify_data env0 shard0 = IdentifyData ''token'' (''linux'', ''Sandwich 1'', ''Sandwich 1'')
         True 250 (0, 1) [] False 0"
    by (simp_all add: shard0_def env0_def talk_def ws_bucket_def gw_bucket_def show_int_def
        digits.simps digit_def identify_data_def)
  have s1: "talk resumable = []" "sessionID resumable = ''S1''" "seq resumable = 42"
    "ws_bucket resumable = ''ws:0:1''" "mg_Token resumable = ''token''"
    by (simp_all add: resumable_def shard0_def talk_def ws_bucket_def show_int_def
        digits.simps digit_def)
  show ?thesis
    using Connect_identify_or_resume [OF a0 e(1-4)] Connect_identify_or_resume [OF a1 e(1-4)] e(5)
    by (simp add: s0 s1 z)
qed

end
